theory Spec2Isabelle
  imports Main "HOL-Library.Word"
begin

section \<open>JavaScript values\<close>

text \<open>
  A JavaScript string is a sequence of 16-bit code units. String literals of
  \<^verbatim>\<open>app.js\<close> are ASCII and are written \<open>lit ''...''\<close>.
\<close>

type_synonym jstring = "16 word list"

definition lit :: "string \<Rightarrow> jstring" where
  "lit s = map of_char s"

text \<open>
  The program never computes with a number: it tests one for truth, compares one with
  zero and converts one to a string. A number is therefore given by what these
  operations see of it: a finite number by whether it is zero (\<open>0\<close> or \<open>-0\<close>) and by
  the characters that \<^verbatim>\<open>Number.prototype.toString\<close> prints for it, an infinite one
  (a JSON number beyond the range of a double) by its sign.
\<close>

datatype numchar =
  D0 | D1 | D2 | D3 | D4 | D5 | D6 | D7 | D8 | D9 | Minus | Plus | Dot | Exp

datatype jsnum =
    Finite bool "numchar list"
  | Infinite bool

text \<open>
  The values that \<^verbatim>\<open>res.json()\<close> can produce, together with \<open>Undefined\<close>
  (the result of reading a missing property). An object is the list of its own
  properties, each key once, in the engine's enumeration order.
\<close>

datatype jsval =
    Undefined
  | Null
  | Bool bool
  | Num jsnum
  | Str jstring
  | Arr "jsval list"
  | Obj "(jstring \<times> jsval) list"

text \<open>
  Thrown values. Only \<^verbatim>\<open>e.message\<close> is ever read by the program. The wording of
  the messages of engine-raised \<open>TypeError\<close>s is the engine's own; the texts used
  below for them are placeholders that nothing depends on.
\<close>

datatype exn =
    Error jstring
  | TypeError jstring
  | SyntaxError jstring
  | DOMException jstring

fun message :: "exn \<Rightarrow> jstring" where
  "message (Error m) = m"
| "message (TypeError m) = m"
| "message (SyntaxError m) = m"
| "message (DOMException m) = m"

subsection \<open>Conversions\<close>

definition digit :: "nat \<Rightarrow> 16 word" where
  "digit d = of_nat (48 + d)"

fun dec_nat :: "nat \<Rightarrow> jstring" where
  "dec_nat n = (if n < 10 then [digit n] else dec_nat (n div 10) @ [digit (n mod 10)])"

declare dec_nat.simps [simp del]

text \<open>The code unit of a character of a printed number, and the printed number.\<close>

fun unit_of :: "numchar \<Rightarrow> 16 word" where
  "unit_of D0 = 0x30" | "unit_of D1 = 0x31" | "unit_of D2 = 0x32" | "unit_of D3 = 0x33"
| "unit_of D4 = 0x34" | "unit_of D5 = 0x35" | "unit_of D6 = 0x36" | "unit_of D7 = 0x37"
| "unit_of D8 = 0x38" | "unit_of D9 = 0x39"
| "unit_of Minus = 0x2D" | "unit_of Plus = 0x2B" | "unit_of Dot = 0x2E" | "unit_of Exp = 0x65"

fun Number_toString :: "jsnum \<Rightarrow> jstring" where
  "Number_toString (Finite z cs) = map unit_of cs"
| "Number_toString (Infinite neg) = (if neg then lit ''-Infinity'' else lit ''Infinity'')"

text \<open>The number that is the length of an array or of a string.\<close>

definition digit_char :: "nat \<Rightarrow> numchar" where
  "digit_char d = [D0, D1, D2, D3, D4, D5, D6, D7, D8, D9] ! (d mod 10)"

fun dec_chars :: "nat \<Rightarrow> numchar list" where
  "dec_chars n =
     (if n < 10 then [digit_char n] else dec_chars (n div 10) @ [digit_char (n mod 10)])"

declare dec_chars.simps [simp del]

definition number_of_nat :: "nat \<Rightarrow> jsnum" where
  "number_of_nat n = Finite (n = 0) (dec_chars n)"

text \<open>\<^verbatim>\<open>v === 0\<close>\<close>

fun strict_eq_zero :: "jsval \<Rightarrow> bool" where
  "strict_eq_zero (Num (Finite z cs)) = z"
| "strict_eq_zero v = False"

text \<open>The results of a list of conversions, or the first exception among them.\<close>

fun collect :: "(exn + 'a) list \<Rightarrow> exn + 'a list" where
  "collect [] = Inr []"
| "collect (Inl e # rs) = Inl e"
| "collect (Inr x # rs) = (case collect rs of Inl e \<Rightarrow> Inl e | Inr xs \<Rightarrow> Inr (x # xs))"

fun join :: "jstring \<Rightarrow> jstring list \<Rightarrow> jstring" where
  "join sep [] = []"
| "join sep [s] = s"
| "join sep (s # t # ss) = s @ sep @ join sep (t # ss)"

text \<open>
  \<^verbatim>\<open>ToString\<close>. An array is joined with commas, \<open>null\<close> and \<open>undefined\<close> elements
  giving the empty string (\<^verbatim>\<open>Array.prototype.join\<close>). An object is converted by
  its \<open>toString\<close> method: an object read from JSON inherits the one that answers
  \<open>[object Object]\<close>, unless it has a property of that name of its own, which is
  then no function, and the conversion throws a \<open>TypeError\<close>.
\<close>

fun ToString :: "jsval \<Rightarrow> exn + jstring" where
  "ToString Undefined = Inr (lit ''undefined'')"
| "ToString Null = Inr (lit ''null'')"
| "ToString (Bool b) = Inr (if b then lit ''true'' else lit ''false'')"
| "ToString (Num n) = Inr (Number_toString n)"
| "ToString (Str s) = Inr s"
| "ToString (Arr xs) =
     (case collect (map (\<lambda>x. if x = Undefined \<or> x = Null then Inr [] else ToString x) xs) of
        Inl e \<Rightarrow> Inl e
      | Inr ss \<Rightarrow> Inr (join (lit '','') ss))"
| "ToString (Obj kvs) =
     (if lit ''toString'' \<in> fst ` set kvs
      then Inl (TypeError (lit ''Cannot convert object to primitive value''))
      else Inr (lit ''[object Object]''))"

text \<open>\<^verbatim>\<open>ToBoolean\<close>.\<close>

fun truthy :: "jsval \<Rightarrow> bool" where
  "truthy Undefined = False"
| "truthy Null = False"
| "truthy (Bool b) = b"
| "truthy (Num (Finite z cs)) = (\<not> z)"
| "truthy (Num (Infinite neg)) = True"
| "truthy (Str s) = (s \<noteq> [])"
| "truthy (Arr xs) = True"
| "truthy (Obj kvs) = True"

text \<open>\<^verbatim>\<open>a || b\<close>\<close>

definition js_or :: "jsval \<Rightarrow> jsval \<Rightarrow> jsval" where
  "js_or a b = (if truthy a then a else b)"

text \<open>
  Reading a property \<^verbatim>\<open>v.k\<close>, for the property names the program reads
  (\<open>condensed\<close>, \<open>tables\<close>, \<open>title\<close>, \<open>headers\<close>, \<open>rows\<close>, \<open>length\<close>); none of them
  but \<open>length\<close> is inherited from a prototype.
\<close>

definition get_prop :: "jsval \<Rightarrow> jstring \<Rightarrow> exn + jsval" where
  "get_prop v k = (case v of
      Undefined \<Rightarrow> Inl (TypeError (lit ''Cannot read properties of undefined''))
    | Null \<Rightarrow> Inl (TypeError (lit ''Cannot read properties of null''))
    | Obj kvs \<Rightarrow> Inr (case map_of kvs k of Some x \<Rightarrow> x | None \<Rightarrow> Undefined)
    | Arr xs \<Rightarrow> Inr (if k = lit ''length'' then Num (number_of_nat (length xs)) else Undefined)
    | Str s \<Rightarrow> Inr (if k = lit ''length'' then Num (number_of_nat (length s)) else Undefined)
    | _ \<Rightarrow> Inr Undefined)"

subsection \<open>\<^verbatim>\<open>JSON.stringify\<close>\<close>

text \<open>
  \<^verbatim>\<open>QuoteJSONString\<close>: the two-character escapes, \<^verbatim>\<open>\uXXXX\<close> (lower-case hex) for
  the other control characters and for unpaired surrogates, every other code unit
  as it is. A surrogate pair is kept.
\<close>

definition is_lead :: "16 word \<Rightarrow> bool" where
  "is_lead c = (0xD800 \<le> c \<and> c \<le> 0xDBFF)"

definition is_trail :: "16 word \<Rightarrow> bool" where
  "is_trail c = (0xDC00 \<le> c \<and> c \<le> 0xDFFF)"

definition hex_digit :: "nat \<Rightarrow> 16 word" where
  "hex_digit d = (if d < 10 then of_nat (48 + d) else of_nat (87 + d))"

definition UnicodeEscape :: "16 word \<Rightarrow> jstring" where
  "UnicodeEscape c =
     [0x5C, 0x75] @ map (\<lambda>k. hex_digit (unat (drop_bit k c) mod 16)) [12, 8, 4, 0]"

definition quote_unit :: "16 word \<Rightarrow> jstring" where
  "quote_unit c =
     (if c = 0x08 then [0x5C, 0x62]
      else if c = 0x09 then [0x5C, 0x74]
      else if c = 0x0A then [0x5C, 0x6E]
      else if c = 0x0C then [0x5C, 0x66]
      else if c = 0x0D then [0x5C, 0x72]
      else if c = 0x22 then [0x5C, 0x22]
      else if c = 0x5C then [0x5C, 0x5C]
      else if c < 0x20 then UnicodeEscape c
      else [c])"

fun quote_units :: "jstring \<Rightarrow> jstring" where
  "quote_units [] = []"
| "quote_units [c] = (if is_lead c \<or> is_trail c then UnicodeEscape c else quote_unit c)"
| "quote_units (c # d # cs) =
     (if is_lead c \<and> is_trail d then c # d # quote_units cs
      else if is_lead c \<or> is_trail c then UnicodeEscape c @ quote_units (d # cs)
      else quote_unit c @ quote_units (d # cs))"

definition QuoteJSONString :: "jstring \<Rightarrow> jstring" where
  "QuoteJSONString s = [0x22] @ quote_units s @ [0x22]"

text \<open>
  The common tail of \<^verbatim>\<open>SerializeJSONObject\<close> and \<^verbatim>\<open>SerializeJSONArray\<close>:
  \<open>stepback\<close> is the indentation of the enclosing level, \<open>gap\<close> one level of
  indentation, \<open>partial\<close> the serialised members.
\<close>

definition wrap :: "jstring \<Rightarrow> jstring \<Rightarrow> jstring \<Rightarrow> jstring \<Rightarrow> jstring list \<Rightarrow> jstring" where
  "wrap opn cls gap stepback partial =
     (if partial = [] then opn @ cls
      else if gap = [] then opn @ join (lit '','') partial @ cls
      else opn @ [0x0A] @ (stepback @ gap)
             @ join (lit '','' @ [0x0A] @ (stepback @ gap)) partial
             @ [0x0A] @ stepback @ cls)"

text \<open>\<^verbatim>\<open>SerializeJSONProperty\<close>; \<open>None\<close> is the result \<^verbatim>\<open>undefined\<close>.\<close>

fun ser :: "jstring \<Rightarrow> jstring \<Rightarrow> jsval \<Rightarrow> jstring option" where
  "ser gap ind Undefined = None"
| "ser gap ind Null = Some (lit ''null'')"
| "ser gap ind (Bool b) = Some (if b then lit ''true'' else lit ''false'')"
| "ser gap ind (Num (Finite z cs)) = Some (map unit_of cs)"
| "ser gap ind (Num (Infinite neg)) = Some (lit ''null'')"
| "ser gap ind (Str s) = Some (QuoteJSONString s)"
| "ser gap ind (Arr xs) =
     Some (wrap (lit ''['') (lit '']'') gap ind
       (map (\<lambda>x. case ser gap (ind @ gap) x of None \<Rightarrow> lit ''null'' | Some s \<Rightarrow> s) xs))"
| "ser gap ind (Obj kvs) =
     Some (wrap (lit ''{'') (lit ''}'') gap ind
       (concat (map (\<lambda>kv. case ser gap (ind @ gap) (snd kv) of
                       None \<Rightarrow> []
                     | Some s \<Rightarrow>
                         [QuoteJSONString (fst kv) @ lit '':''
                            @ (if gap = [] then [] else lit '' '') @ s]) kvs)))"

text \<open>
  \<^verbatim>\<open>JSON.stringify(v, null, space)\<close> for a numeric \<open>space\<close>; \<open>space = 0\<close> is also
  \<^verbatim>\<open>JSON.stringify(v)\<close>.
\<close>

definition JSON_stringify :: "jsval \<Rightarrow> nat \<Rightarrow> jstring option" where
  "JSON_stringify v space = ser (replicate (min space 10) 0x20) [] v"

subsection \<open>\<^verbatim>\<open>String.prototype.trim\<close>\<close>

text \<open>White space and line terminators of ECMAScript; all of them are single code units.\<close>

definition is_ws :: "16 word \<Rightarrow> bool" where
  "is_ws c = (c = 0x09 \<or> c = 0x0A \<or> c = 0x0B \<or> c = 0x0C \<or> c = 0x0D \<or> c = 0x20
      \<or> c = 0xA0 \<or> c = 0x1680 \<or> (0x2000 \<le> c \<and> c \<le> 0x200A) \<or> c = 0x2028
      \<or> c = 0x2029 \<or> c = 0x202F \<or> c = 0x205F \<or> c = 0x3000 \<or> c = 0xFEFF)"

definition trim :: "jstring \<Rightarrow> jstring" where
  "trim s = rev (dropWhile is_ws (rev (dropWhile is_ws s)))"

text \<open>The call \<^verbatim>\<open>v.trim()\<close>: only a string has the method.\<close>

definition call_trim :: "jsval \<Rightarrow> exn + jstring" where
  "call_trim v = (case v of
      Str s \<Rightarrow> Inr (trim s)
    | Undefined \<Rightarrow> Inl (TypeError (lit ''Cannot read properties of undefined''))
    | Null \<Rightarrow> Inl (TypeError (lit ''Cannot read properties of null''))
    | _ \<Rightarrow> Inl (TypeError (lit ''trim is not a function'')))"

subsection \<open>\<^verbatim>\<open>Array.prototype.forEach\<close>\<close>

text \<open>
  The callback works on a state \<open>'s\<close> (the element it appends to); when it throws,
  the loop stops with the state reached so far. Only an array has the method.
\<close>

fun forEach_list :: "('s \<Rightarrow> jsval \<Rightarrow> exn + 's) \<Rightarrow> jsval list \<Rightarrow> 's \<Rightarrow> exn option \<times> 's" where
  "forEach_list f [] s = (None, s)"
| "forEach_list f (x # xs) s =
     (case f s x of Inl e \<Rightarrow> (Some e, s) | Inr s' \<Rightarrow> forEach_list f xs s')"

definition forEach :: "jsval \<Rightarrow> ('s \<Rightarrow> jsval \<Rightarrow> exn + 's) \<Rightarrow> 's \<Rightarrow> exn option \<times> 's" where
  "forEach v f s = (case v of
      Arr xs \<Rightarrow> forEach_list f xs s
    | Undefined \<Rightarrow> (Some (TypeError (lit ''Cannot read properties of undefined'')), s)
    | Null \<Rightarrow> (Some (TypeError (lit ''Cannot read properties of null'')), s)
    | _ \<Rightarrow> (Some (TypeError (lit ''forEach is not a function'')), s))"

section \<open>The document\<close>

text \<open>
  An element carries the properties that \<^verbatim>\<open>app.js\<close> reads or writes. The text of an
  element is kept in \<open>textContent\<close> (the program sets it on childless elements only);
  \<open>el_value\<close> is the \<^verbatim>\<open>value\<close> of a textarea as the program reads it.
  \<open>Markup s\<close> stands for the nodes that the browser's parser builds from a string
  assigned to \<^verbatim>\<open>innerHTML\<close>; the parser itself is not modelled.
\<close>

datatype listener = CopyJsonClick

record props =
  tagName :: string
  className :: jstring
  textContent :: jstring
  el_value :: jstring
  el_rows :: "nat option"
  readOnly :: bool
  disabled :: bool
  listeners :: "(jstring \<times> listener) list"

datatype element = Element (props: props) (childNodes: "node list")
  and node = Child element | Markup jstring

definition createElement :: "string \<Rightarrow> element" where
  "createElement t =
     Element \<lparr>tagName = t, className = [], textContent = [], el_value = [],
              el_rows = None, readOnly = False, disabled = False, listeners = []\<rparr> []"

definition assign :: "(props \<Rightarrow> props) \<Rightarrow> element \<Rightarrow> element" where
  "assign f el = Element (f (props el)) (childNodes el)"

text \<open>\<^verbatim>\<open>el.textContent = s\<close> replaces the children by the text.\<close>

definition set_textContent :: "jstring \<Rightarrow> element \<Rightarrow> element" where
  "set_textContent s el = Element ((props el)\<lparr>textContent := s\<rparr>) []"

text \<open>\<^verbatim>\<open>el.innerHTML = s\<close> replaces the content by what the parser builds from \<open>s\<close>.\<close>

definition set_innerHTML :: "jstring \<Rightarrow> element \<Rightarrow> element" where
  "set_innerHTML s el =
     Element ((props el)\<lparr>textContent := []\<rparr>) (if s = [] then [] else [Markup s])"

definition appendChild :: "element \<Rightarrow> element \<Rightarrow> element" where
  "appendChild child parent = Element (props parent) (childNodes parent @ [Child child])"

text \<open>
  The conversion of an assigned value, which throws when \<open>ToString\<close> does:
  \<^verbatim>\<open>textContent\<close> is a nullable string (\<open>null\<close> and \<open>undefined\<close> give the empty text),
  the \<^verbatim>\<open>value\<close> of a textarea maps only \<open>null\<close> to the empty string.
\<close>

definition textContent_of :: "jsval \<Rightarrow> exn + jstring" where
  "textContent_of v = (if v = Undefined \<or> v = Null then Inr [] else ToString v)"

definition value_of :: "jsval \<Rightarrow> exn + jstring" where
  "value_of v = (if v = Null then Inr [] else ToString v)"

text \<open>
  The \<^verbatim>\<open>value\<close> of a textarea reads back with its line breaks normalised: every
  CR LF pair and every other CR has become LF. \<^verbatim>\<open>el.value = s\<close> therefore stores the
  normalised text. (\<open>article-output\<close> is taken to be a textarea, as the JSON output
  that borrows its class is.)
\<close>

fun normalize_newlines :: "jstring \<Rightarrow> jstring" where
  "normalize_newlines [] = []"
| "normalize_newlines [c] = [if c = 0x0D then 0x0A else c]"
| "normalize_newlines (c # d # cs) =
     (if c = 0x0D \<and> d = 0x0A then 0x0A # normalize_newlines cs
      else if c = 0x0D then 0x0A # normalize_newlines (d # cs)
      else c # normalize_newlines (d # cs))"

definition set_value :: "jstring \<Rightarrow> element \<Rightarrow> element" where
  "set_value s el = assign (\<lambda>p. p\<lparr>el_value := normalize_newlines s\<rparr>) el"

text \<open>
  The elements that the program looks up by id, the pending timeouts (callback and
  delay in milliseconds) and the system clipboard.
\<close>

datatype timer_cb = RevertCopyArticle | RevertCopyJson

record page =
  article_input :: element
  process_article_btn :: element
  article_output :: element
  copy_article_btn :: element
  gpt_input :: element
  parse_tables_btn :: element
  tables_output :: element
  timers :: "(timer_cb \<times> nat) list"
  clipboard :: jstring

definition setTimeout :: "timer_cb \<Rightarrow> nat \<Rightarrow> page \<Rightarrow> page" where
  "setTimeout cb ms st = st\<lparr>timers := timers st @ [(cb, ms)]\<rparr>"

text \<open>
  A statement sequence runs on the page and either completes or throws; the changes
  made before a throw stay. \<open>try_catch_finally\<close> is the \<^verbatim>\<open>try/catch/finally\<close>
  statement: the handler runs on a throw of the body, the finaliser always, and a throw
  of the handler or of the finaliser propagates.
\<close>

type_synonym cmd = "page \<Rightarrow> exn option \<times> page"

definition try_catch_finally :: "cmd \<Rightarrow> (exn \<Rightarrow> cmd) \<Rightarrow> cmd \<Rightarrow> cmd" where
  "try_catch_finally body handler finaliser st =
     (case body st of
        (None, st1) \<Rightarrow> finaliser st1
      | (Some e, st1) \<Rightarrow>
          (case handler e st1 of
             (None, st2) \<Rightarrow> finaliser st2
           | (Some e', st2) \<Rightarrow>
               (case finaliser st2 of
                  (None, st3) \<Rightarrow> (Some e', st3)
                | (Some e'', st3) \<Rightarrow> (Some e'', st3))))"

section \<open>Helpers\<close>

subsection \<open>\<^verbatim>\<open>postJSON\<close>\<close>

text \<open>
  What the network gives back: \<^verbatim>\<open>fetch\<close> rejects, or resolves to a response with a
  status, whose body \<^verbatim>\<open>res.text()\<close> and \<^verbatim>\<open>res.json()\<close> read (each may reject).
  \<^verbatim>\<open>res.ok\<close> is true for the statuses 200 to 299.
\<close>

record response =
  status :: nat
  text_result :: "exn + jstring"
  json_result :: "exn + jsval"

definition ok :: "response \<Rightarrow> bool" where
  "ok res = (200 \<le> status res \<and> status res \<le> 299)"

record request =
  req_url :: jstring
  req_method :: jstring
  req_headers :: "(jstring \<times> jstring) list"
  req_body :: "jstring option"

text \<open>The request that \<^verbatim>\<open>postJSON(url, payload)\<close> hands to \<^verbatim>\<open>fetch\<close>.\<close>

definition postJSON_request :: "jstring \<Rightarrow> jsval \<Rightarrow> request" where
  "postJSON_request url payload =
     \<lparr>req_url = url, req_method = lit ''POST'',
      req_headers = [(lit ''Content-Type'', lit ''application/json'')],
      req_body = JSON_stringify payload 0\<rparr>"

text \<open>The rest of \<^verbatim>\<open>postJSON\<close>, from the outcome of \<^verbatim>\<open>fetch\<close> on.\<close>

definition postJSON :: "exn + response \<Rightarrow> exn + jsval" where
  "postJSON fetched =
     (case fetched of
        Inl e \<Rightarrow> Inl e
      | Inr res \<Rightarrow>
          if \<not> ok res then
            (case text_result res of
               Inl e \<Rightarrow> Inl e
             | Inr text \<Rightarrow>
                 Inl (Error (lit ''Request failed: '' @ dec_nat (status res) @ lit '' '' @ text)))
          else json_result res)"

subsection \<open>\<^verbatim>\<open>copyToClipboard\<close>\<close>

text \<open>
  \<^verbatim>\<open>navigator.clipboard.writeText(text)\<close>: the promise resolves when the text has been
  written to the system clipboard, and rejects otherwise.
\<close>

definition copyToClipboard :: "jstring \<Rightarrow> exn + unit \<Rightarrow> cmd" where
  "copyToClipboard text outcome st =
     (case outcome of
        Inl e \<Rightarrow> (Some e, st)
      | Inr _ \<Rightarrow> (None, st\<lparr>clipboard := text\<rparr>))"

section \<open>Rendering\<close>

subsection \<open>\<^verbatim>\<open>renderReadonlyTable\<close>\<close>

text \<open>The three arrow functions of the loops; each appends to the element it is given.\<close>

definition header_cell :: "element \<Rightarrow> jsval \<Rightarrow> exn + element" where
  "header_cell thr h =
     (let th = createElement ''th''
      in case textContent_of h of
           Inl e \<Rightarrow> Inl e
         | Inr t \<Rightarrow> Inr (appendChild (set_textContent t th) thr))"

definition body_cell :: "element \<Rightarrow> jsval \<Rightarrow> exn + element" where
  "body_cell tr cell =
     (let td = createElement ''td''
      in case textContent_of cell of
           Inl e \<Rightarrow> Inl e
         | Inr t \<Rightarrow> Inr (appendChild (set_textContent t td) tr))"

definition body_row :: "element \<Rightarrow> jsval \<Rightarrow> exn + element" where
  "body_row tbody row =
     (let tr = createElement ''tr''
      in case forEach row body_cell tr of
           (Some e, _) \<Rightarrow> Inl e
         | (None, tr1) \<Rightarrow> Inr (appendChild tr1 tbody))"

definition renderReadonlyTable :: "jsval \<Rightarrow> exn + element" where
  "renderReadonlyTable table =
     (let tbl = assign (\<lambda>p. p\<lparr>className := lit ''editable-table''\<rparr>) (createElement ''table'');
          thead = createElement ''thead'';
          thr = createElement ''tr''
      in case get_prop table (lit ''headers'') of
           Inl e \<Rightarrow> Inl e
         | Inr headers \<Rightarrow>
        (case forEach (js_or headers (Arr [])) header_cell thr of
           (Some e, _) \<Rightarrow> Inl e
         | (None, thr1) \<Rightarrow>
        (let thead1 = appendChild thr1 thead;
             tbody = createElement ''tbody''
         in case get_prop table (lit ''rows'') of
              Inl e \<Rightarrow> Inl e
            | Inr rows \<Rightarrow>
           (case forEach (js_or rows (Arr [])) body_row tbody of
              (Some e, _) \<Rightarrow> Inl e
            | (None, tbody1) \<Rightarrow> Inr (appendChild tbody1 (appendChild thead1 tbl))))))"

subsection \<open>\<^verbatim>\<open>renderTableBlock\<close>\<close>

definition renderTableBlock :: "element \<Rightarrow> jsval \<Rightarrow> exn + element" where
  "renderTableBlock container table =
     (let block = assign (\<lambda>p. p\<lparr>className := lit ''table-block''\<rparr>) (createElement ''div'');
          titleWrap = assign (\<lambda>p. p\<lparr>className := lit ''title-wrap''\<rparr>) (createElement ''div'');
          titleLabel = set_textContent (lit ''Title'')
            (assign (\<lambda>p. p\<lparr>className := lit ''label inline''\<rparr>) (createElement ''div''));
          titleValue = createElement ''div''
      in case get_prop table (lit ''title'') of
           Inl e \<Rightarrow> Inl e
         | Inr title \<Rightarrow>
        (case call_trim (js_or title (Str [])) of
           Inl e \<Rightarrow> Inl e
         | Inr trimmed \<Rightarrow>
        (case textContent_of (js_or (Str trimmed) (Str (lit ''(untitled)''))) of
           Inl e \<Rightarrow> Inl e
         | Inr shown \<Rightarrow>
        (let titleValue1 = set_textContent shown titleValue;
             titleWrap1 = appendChild titleValue1 (appendChild titleLabel titleWrap)
         in case renderReadonlyTable table of
              Inl e \<Rightarrow> Inl e
            | Inr tableEl \<Rightarrow>
           (let jsonLabel = assign (\<lambda>p. p\<lparr>className := lit ''label''\<rparr>)
                  (set_textContent (lit ''Table JSON'') (createElement ''label''));
                jsonOut = set_value (case JSON_stringify table 2 of
                                       None \<Rightarrow> lit ''undefined'' | Some j \<Rightarrow> j)
                  (assign (\<lambda>p. p\<lparr>className := lit ''textarea condensed-output'',
                      el_rows := Some 8, readOnly := True\<rparr>)
                  (createElement ''textarea''));
                copyJsonBtn = assign (\<lambda>p. p\<lparr>listeners := listeners p @ [(lit ''click'', CopyJsonClick)]\<rparr>)
                  (set_textContent (lit ''Copy JSON'')
                    (assign (\<lambda>p. p\<lparr>className := lit ''btn secondary''\<rparr>) (createElement ''button'')));
                jsonActions = appendChild copyJsonBtn
                  (assign (\<lambda>p. p\<lparr>className := lit ''actions''\<rparr>) (createElement ''div''));
                block1 = appendChild jsonActions (appendChild jsonOut (appendChild jsonLabel
                  (appendChild tableEl (appendChild titleWrap1 block))))
            in Inr (appendChild block1 container))))))"

text \<open>
  The listener installed on \<open>copyJsonBtn\<close> (named \<open>CopyJsonClick\<close> above) closes over
  \<open>jsonOut\<close> and \<open>copyJsonBtn\<close>; the two are passed explicitly. At the click it reads
  the textarea and calls \<open>copyToClipboard\<close> with that text; when the clipboard has
  answered it relabels the button and starts the timeout, on the page as it is then.
\<close>

definition copyJsonBtn_click_start :: "element \<Rightarrow> jstring" where
  "copyJsonBtn_click_start jsonOut = el_value (props jsonOut)"

definition copyJsonBtn_click_resume :: "jstring \<Rightarrow> exn + unit \<Rightarrow> element \<Rightarrow> page \<Rightarrow> exn option \<times> element \<times> page" where
  "copyJsonBtn_click_resume text outcome copyJsonBtn st =
     (case copyToClipboard text outcome st of
        (Some e, st1) \<Rightarrow> (Some e, copyJsonBtn, st1)
      | (None, st1) \<Rightarrow>
          (None, set_textContent (lit ''Copied!'') copyJsonBtn, setTimeout RevertCopyJson 1200 st1))"

text \<open>The callback of that timeout (named \<open>RevertCopyJson\<close> above).\<close>

definition copyJsonBtn_timeout :: "element \<Rightarrow> element" where
  "copyJsonBtn_timeout copyJsonBtn = set_textContent (lit ''Copy JSON'') copyJsonBtn"

subsection \<open>\<^verbatim>\<open>renderTables\<close>\<close>

text \<open>The test \<^verbatim>\<open>!tables || tables.length === 0\<close>; the length is read only of a
  truthy value.\<close>

definition no_tables :: "jsval \<Rightarrow> exn + bool" where
  "no_tables tables =
     (if \<not> truthy tables then Inr True
      else case get_prop tables (lit ''length'') of
             Inl e \<Rightarrow> Inl e
           | Inr l \<Rightarrow> Inr (strict_eq_zero l))"

definition renderTables :: "jsval \<Rightarrow> cmd" where
  "renderTables tables st =
     (let mount = set_innerHTML [] (tables_output st)
      in case no_tables tables of
           Inl e \<Rightarrow> (Some e, st\<lparr>tables_output := mount\<rparr>)
         | Inr True \<Rightarrow>
             (let p = set_textContent (lit ''No tables found.'')
                    (assign (\<lambda>p. p\<lparr>className := lit ''hint''\<rparr>) (createElement ''p''))
              in (None, st\<lparr>tables_output := appendChild p mount\<rparr>))
         | Inr False \<Rightarrow>
             (case forEach tables renderTableBlock mount of
                (r, mount1) \<Rightarrow> (r, st\<lparr>tables_output := mount1\<rparr>)))"

section \<open>Event handlers\<close>

text \<open>
  A click handler that awaits is given in two parts: what runs at the click, up to the
  call of \<^verbatim>\<open>fetch\<close> or of \<^verbatim>\<open>copyToClipboard\<close>, and what runs once the outcome is
  there, on the page as it is then (other handlers may have run in between).
  \<^verbatim>\<open>postJSON\<close> touches no element, so all of its own steps are taken with the second
  part.
\<close>

subsection \<open>Component 1\<close>

definition process_article_btn_click_start :: "page \<Rightarrow> request \<times> page" where
  "process_article_btn_click_start st =
     (let input = el_value (props (article_input st));
          st1 = st\<lparr>process_article_btn := assign (\<lambda>p. p\<lparr>disabled := True\<rparr>) (process_article_btn st)\<rparr>;
          st2 = st1\<lparr>process_article_btn := set_textContent (lit ''Processing...'') (process_article_btn st1)\<rparr>
      in (postJSON_request (lit ''/api/condense'') (Obj [(lit ''text'', Str input)]), st2))"

definition process_article_btn_click_resume :: "exn + response \<Rightarrow> cmd" where
  "process_article_btn_click_resume fetched =
     try_catch_finally
       (\<lambda>st. case postJSON fetched of
                Inl e \<Rightarrow> (Some e, st)
              | Inr r \<Rightarrow>
                  (case get_prop r (lit ''condensed'') of
                     Inl e \<Rightarrow> (Some e, st)
                   | Inr condensed \<Rightarrow>
                       (case value_of condensed of
                          Inl e \<Rightarrow> (Some e, st)
                        | Inr s \<Rightarrow>
                            (None, st\<lparr>article_output := set_value s (article_output st)\<rparr>))))
       (\<lambda>e st. (None, st\<lparr>article_output :=
          set_value (lit ''Error: '' @ message e) (article_output st)\<rparr>))
       (\<lambda>st. let st1 = st\<lparr>process_article_btn := assign (\<lambda>p. p\<lparr>disabled := False\<rparr>) (process_article_btn st)\<rparr>
             in (None, st1\<lparr>process_article_btn := set_textContent (lit ''Process'') (process_article_btn st1)\<rparr>))"

text \<open>
  The copy handler reads the output field at the click and calls \<open>copyToClipboard\<close>
  with that text; it continues when the clipboard has answered.
\<close>

definition copy_article_btn_click_start :: "page \<Rightarrow> jstring" where
  "copy_article_btn_click_start st = el_value (props (article_output st))"

definition copy_article_btn_click_resume :: "jstring \<Rightarrow> exn + unit \<Rightarrow> cmd" where
  "copy_article_btn_click_resume text outcome st =
     (case copyToClipboard text outcome st of
        (Some e, st1) \<Rightarrow> (Some e, st1)
      | (None, st1) \<Rightarrow>
          (None, setTimeout RevertCopyArticle 1200
             (st1\<lparr>copy_article_btn := set_textContent (lit ''Copied!'') (copy_article_btn st1)\<rparr>)))"

text \<open>The callback of that timeout (named \<open>RevertCopyArticle\<close> above).\<close>

definition copy_article_btn_timeout :: "page \<Rightarrow> page" where
  "copy_article_btn_timeout st =
     st\<lparr>copy_article_btn := set_textContent (lit ''Copy condensed'') (copy_article_btn st)\<rparr>"

subsection \<open>Component 2\<close>

definition parse_tables_btn_click_start :: "page \<Rightarrow> request \<times> page" where
  "parse_tables_btn_click_start st =
     (let md = el_value (props (gpt_input st));
          st1 = st\<lparr>parse_tables_btn := assign (\<lambda>p. p\<lparr>disabled := True\<rparr>) (parse_tables_btn st)\<rparr>;
          st2 = st1\<lparr>parse_tables_btn := set_textContent (lit ''Parsing...'') (parse_tables_btn st1)\<rparr>
      in (postJSON_request (lit ''/api/parse_markdown_tables'') (Obj [(lit ''markdown'', Str md)]), st2))"

definition parse_tables_btn_click_resume :: "exn + response \<Rightarrow> cmd" where
  "parse_tables_btn_click_resume fetched =
     try_catch_finally
       (\<lambda>st. case postJSON fetched of
                Inl e \<Rightarrow> (Some e, st)
              | Inr r \<Rightarrow>
                  (case get_prop r (lit ''tables'') of
                     Inl e \<Rightarrow> (Some e, st)
                   | Inr tables \<Rightarrow> renderTables tables st))
       (\<lambda>e st. (None, st\<lparr>tables_output :=
          set_innerHTML (lit ''<p class='' @ [0x22] @ lit ''error'' @ [0x22] @ lit ''>Error: ''
                           @ message e @ lit ''</p>'') (tables_output st)\<rparr>))
       (\<lambda>st. let st1 = st\<lparr>parse_tables_btn := assign (\<lambda>p. p\<lparr>disabled := False\<rparr>) (parse_tables_btn st)\<rparr>
             in (None, st1\<lparr>parse_tables_btn := set_textContent (lit ''Parse tables'') (parse_tables_btn st1)\<rparr>))"

section \<open>Terms for the statements\<close>

text \<open>An element with a tag, a class, a text and children, every other property as
  \<open>createElement\<close> leaves it.\<close>

definition plain :: "string \<Rightarrow> jstring \<Rightarrow> jstring \<Rightarrow> node list \<Rightarrow> element" where
  "plain t cls txt kids =
     Element \<lparr>tagName = t, className = cls, textContent = txt, el_value = [],
              el_rows = None, readOnly = False, disabled = False, listeners = []\<rparr> kids"

text \<open>
  A page to run examples on: the seven elements that the script looks up, with the
  tags and the button labels that the script itself presupposes, nothing pending and
  an empty clipboard.
\<close>

definition blank_page :: page where
  "blank_page =
     \<lparr>article_input = plain ''textarea'' [] [] [],
      process_article_btn = plain ''button'' [] (lit ''Process'') [],
      article_output = plain ''textarea'' [] [] [],
      copy_article_btn = plain ''button'' [] (lit ''Copy condensed'') [],
      gpt_input = plain ''textarea'' [] [] [],
      parse_tables_btn = plain ''button'' [] (lit ''Parse tables'') [],
      tables_output = plain ''div'' [] [] [],
      timers = [], clipboard = []\<rparr>"

text \<open>
  The table that \<open>renderReadonlyTable\<close> builds for the texts \<open>hs\<close> of the header cells
  and the texts \<open>css\<close> of the cells of the body rows: one header row, and one body row
  per element of \<open>css\<close>.
\<close>

definition table_view :: "jstring list \<Rightarrow> jstring list list \<Rightarrow> element" where
  "table_view hs css =
     plain ''table'' (lit ''editable-table'') []
       [Child (plain ''thead'' [] []
          [Child (plain ''tr'' [] [] (map (\<lambda>h. Child (plain ''th'' [] h [])) hs))]),
        Child (plain ''tbody'' [] []
          (map (\<lambda>cs. Child (plain ''tr'' [] []
             (map (\<lambda>c. Child (plain ''td'' [] c [])) cs))) css))]"

text \<open>That the cells \<open>cs\<close> convert to the texts \<open>ts\<close>, one by one.\<close>

definition cell_texts :: "jsval list \<Rightarrow> jstring list \<Rightarrow> bool" where
  "cell_texts cs ts = list_all2 (\<lambda>c t. textContent_of c = Inr t) cs ts"

text \<open>The read-only textarea holding the JSON text \<open>j\<close>, and the copy button of a block.\<close>

definition jsonOut_el :: "jstring \<Rightarrow> element" where
  "jsonOut_el j =
     Element \<lparr>tagName = ''textarea'', className = lit ''textarea condensed-output'',
              textContent = [], el_value = j, el_rows = Some 8, readOnly = True,
              disabled = False, listeners = []\<rparr> []"

definition copyJsonBtn_el :: element where
  "copyJsonBtn_el =
     Element \<lparr>tagName = ''button'', className = lit ''btn secondary'',
              textContent = lit ''Copy JSON'', el_value = [], el_rows = None,
              readOnly = False, disabled = False,
              listeners = [(lit ''click'', CopyJsonClick)]\<rparr> []"

text \<open>A table block: title line, read-only table, label, JSON textarea, copy button.\<close>

definition table_block :: "jstring \<Rightarrow> element \<Rightarrow> jstring \<Rightarrow> element" where
  "table_block title tableEl j =
     plain ''div'' (lit ''table-block'') []
       [Child (plain ''div'' (lit ''title-wrap'') []
          [Child (plain ''div'' (lit ''label inline'') (lit ''Title'') []),
           Child (plain ''div'' [] title [])]),
        Child tableEl,
        Child (plain ''label'' (lit ''label'') (lit ''Table JSON'') []),
        Child (jsonOut_el j),
        Child (plain ''div'' (lit ''actions'') [] [Child copyJsonBtn_el])]"

text \<open>The paragraph shown when there is no table.\<close>

definition no_tables_el :: element where
  "no_tables_el = plain ''p'' (lit ''hint'') (lit ''No tables found.'') []"

text \<open>A double-quoted literal, and the table of the rendering example.\<close>

definition quoted :: "string \<Rightarrow> jstring" where
  "quoted s = [0x22] @ lit s @ [0x22]"

definition example_table :: jsval where
  "example_table =
     Obj [(lit ''title'', Str (lit ''T'')),
          (lit ''headers'', Arr [Str (lit ''a''), Str (lit ''b'')]),
          (lit ''rows'', Arr [Arr [Str (lit ''1''), Str (lit ''2'')]])]"

section \<open>Auxiliary facts\<close>

lemma try_catch_finally_total:
  assumes "\<And>e s. fst (handler e s) = None" and "\<And>s. fst (finaliser s) = None"
  shows "fst (try_catch_finally body handler finaliser st) = None"
  using assms
  apply (simp add: try_catch_finally_def split: prod.splits option.splits)
  by (metis fst_conv option.distinct(1))

lemma renderTables_frame: "\<exists>m. snd (renderTables tables st) = st\<lparr>tables_output := m\<rparr>"
  by (auto simp: renderTables_def Let_def split: prod.splits sum.splits bool.splits)

lemma process_resume_completes: "fst (process_article_btn_click_resume fetched st) = None"
  unfolding process_article_btn_click_resume_def
  by (rule try_catch_finally_total) (simp_all add: Let_def)

lemma parse_resume_completes: "fst (parse_tables_btn_click_resume fetched st) = None"
  unfolding parse_tables_btn_click_resume_def
  by (rule try_catch_finally_total) (simp_all add: Let_def)

lemma header_cells:
  assumes "cell_texts hs ts"
  shows "forEach_list header_cell hs thr =
     (None, Element (props thr) (childNodes thr @ map (\<lambda>t. Child (plain ''th'' [] t [])) ts))"
  using assms unfolding cell_texts_def
  by (induction hs ts arbitrary: thr rule: list_all2_induct)
     (simp_all add: header_cell_def appendChild_def set_textContent_def createElement_def plain_def)

lemma body_cells:
  assumes "cell_texts cs ts"
  shows "forEach_list body_cell cs tr =
     (None, Element (props tr) (childNodes tr @ map (\<lambda>t. Child (plain ''td'' [] t [])) ts))"
  using assms unfolding cell_texts_def
  by (induction cs ts arbitrary: tr rule: list_all2_induct)
     (simp_all add: body_cell_def appendChild_def set_textContent_def createElement_def plain_def)

lemma body_row_Arr:
  assumes "cell_texts cs ts"
  shows "body_row tbody (Arr cs) =
     Inr (appendChild (plain ''tr'' [] [] (map (\<lambda>t. Child (plain ''td'' [] t [])) ts)) tbody)"
  using assms by (simp add: body_row_def forEach_def body_cells createElement_def plain_def)

lemma body_rows:
  assumes "list_all2 cell_texts css tss"
  shows "forEach_list body_row (map Arr css) tbody =
     (None, Element (props tbody) (childNodes tbody @
        map (\<lambda>ts. Child (plain ''tr'' [] [] (map (\<lambda>t. Child (plain ''td'' [] t [])) ts))) tss))"
  using assms
  by (induction css tss arbitrary: tbody rule: list_all2_induct)
     (simp_all add: body_row_Arr appendChild_def)

lemma renderReadonlyTable_view:
  assumes "get_prop table (lit ''headers'') = Inr h" and "js_or h (Arr []) = Arr hs"
    and "cell_texts hs hts"
    and "get_prop table (lit ''rows'') = Inr r" and "js_or r (Arr []) = Arr (map Arr css)"
    and "list_all2 cell_texts css ctss"
  shows "renderReadonlyTable table = Inr (table_view hts ctss)"
  using assms
  by (simp add: renderReadonlyTable_def forEach_def header_cells body_rows table_view_def
      appendChild_def assign_def createElement_def plain_def)

lemma text_cells: "cell_texts (map Str ts) ts"
  by (induction ts) (simp_all add: cell_texts_def textContent_of_def)

subsection \<open>No carriage return in a JSON text\<close>

lemma normalize_newlines_id: "0x0D \<notin> set s \<Longrightarrow> normalize_newlines s = s"
  by (induction s rule: normalize_newlines.induct) auto

lemma join_no_CR:
  assumes "0x0D \<notin> set sep" and "\<forall>p\<in>set ps. 0x0D \<notin> set p"
  shows "0x0D \<notin> set (join sep ps)"
  using assms by (induction sep ps rule: join.induct) auto

lemma hex_digit_no_CR: "hex_digit (n mod 16) \<noteq> 0x0D"
proof
  assume a: "hex_digit (n mod 16) = 0x0D"
  let ?k = "if n mod 16 < 10 then 48 + n mod 16 else 87 + n mod 16"
  have lt: "n mod 16 < 16" by simp
  have "hex_digit (n mod 16) = word_of_nat ?k"
    by (simp only: hex_digit_def if_distrib [of word_of_nat])
  then have "unat (hex_digit (n mod 16)) = ?k mod 2 ^ 16"
    by (simp only: unat_of_nat len_bit0 len_num1) simp
  also have "\<dots> = ?k" using lt by simp
  finally have "48 \<le> unat (hex_digit (n mod 16))" by simp
  with a show False by simp
qed

lemma UnicodeEscape_no_CR: "0x0D \<notin> set (UnicodeEscape c)"
  using hex_digit_no_CR by (auto simp: UnicodeEscape_def)

lemma quote_unit_no_CR: "0x0D \<notin> set (quote_unit c)"
  using UnicodeEscape_no_CR [of c] by (auto simp: quote_unit_def)

lemma lead_not_CR: "is_lead c \<Longrightarrow> c \<noteq> 0x0D"
  by (auto simp: is_lead_def)

lemma trail_not_CR: "is_trail c \<Longrightarrow> c \<noteq> 0x0D"
  by (auto simp: is_trail_def)

lemma quote_units_no_CR: "0x0D \<notin> set (quote_units s)"
  using UnicodeEscape_no_CR quote_unit_no_CR lead_not_CR trail_not_CR
  by (induction s rule: quote_units.induct) auto

lemma QuoteJSONString_no_CR: "0x0D \<notin> set (QuoteJSONString s)"
  using quote_units_no_CR [of s] by (simp add: QuoteJSONString_def)

lemma unit_of_no_CR: "unit_of c \<noteq> 0x0D"
  by (cases c) simp_all

lemma wrap_no_CR:
  assumes "0x0D \<notin> set opn" and "0x0D \<notin> set cls" and "0x0D \<notin> set gap"
    and "0x0D \<notin> set stepback" and "\<forall>p\<in>set partial. 0x0D \<notin> set p"
  shows "0x0D \<notin> set (wrap opn cls gap stepback partial)"
proof -
  have 1: "0x0D \<notin> set (join (lit '','') partial)"
    using assms(5) by (intro join_no_CR) (simp_all add: lit_def)
  have 2: "0x0D \<notin> set (join (lit '','' @ [0x0A] @ (stepback @ gap)) partial)"
    using assms by (intro join_no_CR) (simp_all add: lit_def)
  show ?thesis
    using assms(1-4) 1 2 by (simp add: wrap_def)
qed

lemma ser_no_CR:
  assumes "0x0D \<notin> set gap" and "0x0D \<notin> set ind" and "ser gap ind v = Some j"
  shows "0x0D \<notin> set j"
  using assms
proof (induction v arbitrary: ind j)
  case (Num n)
  then show ?case
    using unit_of_no_CR by (cases n) (auto simp: lit_def)
next
  case (Str s)
  then show ?case using QuoteJSONString_no_CR [of s] by auto
next
  case (Arr xs)
  have item: "0x0D \<notin> set (case ser gap (ind @ gap) x of None \<Rightarrow> lit ''null'' | Some s \<Rightarrow> s)"
    if "x \<in> set xs" for x
    using Arr.IH [OF that, of "ind @ gap"] Arr.prems
    by (auto simp: lit_def split: option.splits)
  have "0x0D \<notin> set (wrap (lit ''['') (lit '']'') gap ind
       (map (\<lambda>x. case ser gap (ind @ gap) x of None \<Rightarrow> lit ''null'' | Some s \<Rightarrow> s) xs))"
    using Arr.prems item by (intro wrap_no_CR) (simp_all add: lit_def)
  then show ?case using Arr.prems by simp
next
  case (Obj kvs)
  have member: "\<forall>p\<in>set (case ser gap (ind @ gap) (snd kv) of
                       None \<Rightarrow> []
                     | Some s \<Rightarrow>
                         [QuoteJSONString (fst kv) @ lit '':''
                            @ (if gap = [] then [] else lit '' '') @ s]). 0x0D \<notin> set p"
    if "kv \<in> set kvs" for kv
  proof (cases "ser gap (ind @ gap) (snd kv)")
    case None
    then show ?thesis by simp
  next
    case (Some s)
    have "snd kv \<in> Basic_BNFs.snds kv" by (cases kv) simp
    from Obj.IH [OF that this, of "ind @ gap" s] Some Obj.prems
    have "0x0D \<notin> set s" by simp
    then show ?thesis
      using Some QuoteJSONString_no_CR [of "fst kv"] by (simp add: lit_def)
  qed
  have "0x0D \<notin> set (wrap (lit ''{'') (lit ''}'') gap ind
       (concat (map (\<lambda>kv. case ser gap (ind @ gap) (snd kv) of
                       None \<Rightarrow> []
                     | Some s \<Rightarrow>
                         [QuoteJSONString (fst kv) @ lit '':''
                            @ (if gap = [] then [] else lit '' '') @ s]) kvs)))"
    using Obj.prems member by (intro wrap_no_CR) (auto simp add: lit_def)
  then show ?case using Obj.prems by simp
qed (auto simp: lit_def split: if_splits)

lemma JSON_stringify_no_CR: "JSON_stringify v n = Some j \<Longrightarrow> 0x0D \<notin> set j"
  unfolding JSON_stringify_def by (rule ser_no_CR [of "replicate (min n 10) 0x20" "[]"]) auto

lemma ser_None: "ser gap ind v = None \<longleftrightarrow> v = Undefined"
  by (induction gap ind v rule: ser.induct) simp_all

lemma renderTableBlock_block:
  assumes "get_prop table (lit ''title'') = Inr t"
    and "call_trim (js_or t (Str [])) = Inr trimmed"
    and "renderReadonlyTable table = Inr tableEl"
  shows "renderTableBlock container table =
     Inr (appendChild
       (table_block (if trimmed = [] then lit ''(untitled)'' else trimmed) tableEl
          (case JSON_stringify table 2 of None \<Rightarrow> lit ''undefined'' | Some j \<Rightarrow> j)) container)"
proof -
  have "normalize_newlines (case JSON_stringify table 2 of None \<Rightarrow> lit ''undefined'' | Some j \<Rightarrow> j)
      = (case JSON_stringify table 2 of None \<Rightarrow> lit ''undefined'' | Some j \<Rightarrow> j)"
    by (rule normalize_newlines_id)
       (auto simp: lit_def dest: JSON_stringify_no_CR split: option.splits)
  then show ?thesis
    using assms
    by (simp add: renderTableBlock_def table_block_def js_or_def textContent_of_def
        appendChild_def assign_def set_textContent_def createElement_def plain_def
        jsonOut_el_def copyJsonBtn_el_def set_value_def)
qed

lemma renderTableBlock_Inr:
  assumes "renderTableBlock container table = Inr c"
  shows "\<exists>title tableEl j. JSON_stringify table 2 = Some j
           \<and> renderReadonlyTable table = Inr tableEl
           \<and> c = appendChild (table_block title tableEl j) container"
proof -
  from assms obtain t where t: "get_prop table (lit ''title'') = Inr t"
    by (auto simp: renderTableBlock_def Let_def split: sum.splits)
  from assms t obtain trimmed where tr: "call_trim (js_or t (Str [])) = Inr trimmed"
    by (auto simp: renderTableBlock_def Let_def split: sum.splits)
  from assms t tr obtain tableEl where te: "renderReadonlyTable table = Inr tableEl"
    by (auto simp: renderTableBlock_def Let_def split: sum.splits)
  from t have "table \<noteq> Undefined" by (auto simp: get_prop_def)
  then obtain j where j: "JSON_stringify table 2 = Some j"
    using ser_None [of _ _ table] by (auto simp: JSON_stringify_def)
  show ?thesis
    using renderTableBlock_block [OF t tr te, of container] assms j te by auto
qed

subsection \<open>Trimming\<close>

lemma trim_rest:
  "dropWhile is_ws s = trim s @ rev (takeWhile is_ws (rev (dropWhile is_ws s)))"
proof -
  let ?u = "dropWhile is_ws s"
  have "trim s @ rev (takeWhile is_ws (rev ?u)) =
        rev (takeWhile is_ws (rev ?u) @ dropWhile is_ws (rev ?u))"
    by (simp only: trim_def rev_append)
  also have "\<dots> = rev (rev ?u)" by (simp only: takeWhile_dropWhile_id)
  also have "\<dots> = ?u" by simp
  finally show ?thesis by simp
qed

lemma trim_split:
  "\<exists>pre post. s = pre @ trim s @ post \<and> list_all is_ws pre \<and> list_all is_ws post"
proof -
  let ?u = "dropWhile is_ws s"
  have 1: "s = takeWhile is_ws s @ ?u" by simp
  have 2: "?u = trim s @ rev (takeWhile is_ws (rev ?u))"
    by (rule trim_rest)
  have 3: "list_all is_ws (takeWhile is_ws s)"
    by (simp add: list_all_iff) (meson set_takeWhileD)
  have 4: "list_all is_ws (rev (takeWhile is_ws (rev ?u)))"
    by (simp add: list_all_iff) (meson set_takeWhileD)
  from 1 2 have "s = takeWhile is_ws s @ trim s @ rev (takeWhile is_ws (rev ?u))" by simp
  with 3 4 show ?thesis by blast
qed

lemma trim_Nil_iff: "trim s = [] \<longleftrightarrow> list_all is_ws s"
proof -
  have "trim s = [] \<longleftrightarrow> (\<forall>x\<in>set (dropWhile is_ws s). is_ws x)"
    by (simp add: trim_def)
  also have "\<dots> \<longleftrightarrow> dropWhile is_ws s = []"
    by (metis hd_dropWhile hd_in_set empty_iff list.set(1))
  also have "\<dots> \<longleftrightarrow> list_all is_ws s"
    by (simp add: list_all_iff)
  finally show ?thesis .
qed

lemma trim_ends:
  assumes "trim s \<noteq> []"
  shows "\<not> is_ws (hd (trim s)) \<and> \<not> is_ws (last (trim s))"
proof -
  let ?u = "dropWhile is_ws s"
  let ?v = "dropWhile is_ws (rev ?u)"
  from assms have v: "?v \<noteq> []" by (simp add: trim_def)
  then have l: "\<not> is_ws (hd ?v)" by (rule hd_dropWhile)
  have "last (trim s) = hd ?v" using v by (simp add: trim_def last_rev)
  with l have a: "\<not> is_ws (last (trim s))" by simp
  have u: "?u \<noteq> []" using v by (cases "?u") simp_all
  then have hu: "\<not> is_ws (hd ?u)" by (rule hd_dropWhile)
  have "?u = trim s @ rev (takeWhile is_ws (rev ?u))" by (rule trim_rest)
  then have "hd ?u = hd (trim s)" using assms by (metis hd_append2)
  with hu a show ?thesis by simp
qed

subsection \<open>The example table\<close>

lemma example_table_json:
  "JSON_stringify example_table 2 = Some (join [0x0A]
     [lit ''{'',
      lit ''  '' @ quoted ''title'' @ lit '': '' @ quoted ''T'' @ lit '','',
      lit ''  '' @ quoted ''headers'' @ lit '': ['',
      lit ''    '' @ quoted ''a'' @ lit '','',
      lit ''    '' @ quoted ''b'',
      lit ''  ],'',
      lit ''  '' @ quoted ''rows'' @ lit '': ['',
      lit ''    ['',
      lit ''      '' @ quoted ''1'' @ lit '','',
      lit ''      '' @ quoted ''2'',
      lit ''    ]'',
      lit ''  ]'',
      lit ''}''])"
proof -
  have g: "replicate (min 2 10) (0x20::16 word) = [0x20, 0x20]"
    by (simp add: numeral_2_eq_2)
  show ?thesis
    unfolding JSON_stringify_def g
    by (simp add: example_table_def wrap_def QuoteJSONString_def quoted_def
        quote_unit_def is_lead_def is_trail_def lit_def)
qed

lemma example_table_view:
  "renderReadonlyTable example_table =
     Inr (table_view [lit ''a'', lit ''b''] [[lit ''1'', lit ''2'']])"
  by (rule renderReadonlyTable_view [where h = "Arr [Str (lit ''a''), Str (lit ''b'')]"
         and hs = "[Str (lit ''a''), Str (lit ''b'')]"
         and r = "Arr [Arr [Str (lit ''1''), Str (lit ''2'')]]"
         and css = "[[Str (lit ''1''), Str (lit ''2'')]]"])
     (simp_all add: example_table_def get_prop_def js_or_def lit_def cell_texts_def
        textContent_of_def)

lemma example_table_block:
  "renderTableBlock c example_table =
     Inr (appendChild (table_block (lit ''T'')
       (table_view [lit ''a'', lit ''b''] [[lit ''1'', lit ''2'']])
       (the (JSON_stringify example_table 2))) c)"
proof -
  have t: "get_prop example_table (lit ''title'') = Inr (Str (lit ''T''))"
    by (simp add: example_table_def get_prop_def lit_def)
  have tr: "call_trim (js_or (Str (lit ''T'')) (Str [])) = Inr (lit ''T'')"
    by (simp add: call_trim_def js_or_def trim_def is_ws_def lit_def)
  show ?thesis
    using renderTableBlock_block [OF t tr example_table_view, of c] example_table_json
    by (simp add: lit_def)
qed

subsection \<open>Failed requests\<close>

lemma postJSON_failure:
  assumes "\<not> ok res" and "text_result res = Inr body"
  shows "postJSON (Inr res) =
           Inl (Error (lit ''Request failed: '' @ dec_nat (status res) @ lit '' '' @ body))"
  using assms by (simp add: postJSON_def)

lemma condense_failure_shown:
  assumes "postJSON fetched = Inl e"
  shows "process_article_btn_click_resume fetched st =
        (None, st\<lparr>article_output := set_value (lit ''Error: '' @ message e) (article_output st),
                  process_article_btn := set_textContent (lit ''Process'')
                    (assign (\<lambda>p. p\<lparr>disabled := False\<rparr>) (process_article_btn st))\<rparr>)"
  using assms by (simp add: process_article_btn_click_resume_def try_catch_finally_def)

lemma parse_failure_markup:
  assumes "postJSON fetched = Inl e"
  shows "parse_tables_btn_click_resume fetched st =
        (None, st\<lparr>tables_output := set_innerHTML
                      (lit ''<p class='' @ [0x22] @ lit ''error'' @ [0x22] @ lit ''>Error: ''
                         @ message e @ lit ''</p>'')
                      (tables_output st),
                  parse_tables_btn := set_textContent (lit ''Parse tables'')
                    (assign (\<lambda>p. p\<lparr>disabled := False\<rparr>) (parse_tables_btn st))\<rparr>)"
  using assms by (simp add: parse_tables_btn_click_resume_def try_catch_finally_def)

section \<open>The two requests\<close>

text \<open>
  C1. When the condense request succeeds with a body whose \<open>condensed\<close> property is the
  string \<open>X\<close> (the body \<open>{condensed: "X"}\<close> in particular), the handler assigns \<open>X\<close> to
  the value of \<open>article-output\<close> and completes, whatever the page was. The value of the
  field is then \<open>X\<close> with its line breaks normalised: exactly \<open>X\<close> when \<open>X\<close> holds no
  carriage return, and otherwise \<open>X\<close> with every CR LF pair and every other CR
  replaced by LF.
\<close>

theorem condense_success_output_normalised:
  assumes "ok res"
    and "json_result res = Inr (Obj kvs)"
    and "map_of kvs (lit ''condensed'') = Some (Str X)"
  shows "process_article_btn_click_resume (Inr res) st =
           (None, st\<lparr>article_output := set_value X (article_output st),
                     process_article_btn := set_textContent (lit ''Process'')
                       (assign (\<lambda>p. p\<lparr>disabled := False\<rparr>) (process_article_btn st))\<rparr>)
       \<and> el_value (props (article_output (snd (process_article_btn_click_resume (Inr res) st))))
           = normalize_newlines X
       \<and> (0x0D \<notin> set X \<longrightarrow>
            el_value (props (article_output (snd (process_article_btn_click_resume (Inr res) st))))
              = X)"
proof -
  have "process_article_btn_click_resume (Inr res) st =
           (None, st\<lparr>article_output := set_value X (article_output st),
                     process_article_btn := set_textContent (lit ''Process'')
                       (assign (\<lambda>p. p\<lparr>disabled := False\<rparr>) (process_article_btn st))\<rparr>)"
    using assms
    by (simp add: process_article_btn_click_resume_def try_catch_finally_def postJSON_def
        get_prop_def value_of_def)
  then show ?thesis
    using normalize_newlines_id [of X] by (simp add: set_value_def assign_def)
qed

theorem condense_success_output_normalised_witness:
  "el_value (props (article_output (snd (process_article_btn_click_resume
      (Inr \<lparr>status = 200, text_result = Inr [],
            json_result = Inr (Obj [(lit ''condensed'', Str (lit ''X''))])\<rparr>)
      (snd (process_article_btn_click_start blank_page)))))) = lit ''X''"
proof -
  let ?res = "\<lparr>status = 200, text_result = Inr [],
        json_result = Inr (Obj [(lit ''condensed'', Str (lit ''X''))])\<rparr>"
  have x: "0x0D \<notin> set (lit ''X'')" by (simp add: lit_def)
  have "ok ?res" "json_result ?res = Inr (Obj [(lit ''condensed'', Str (lit ''X''))])"
    "map_of [(lit ''condensed'', Str (lit ''X''))] (lit ''condensed'') = Some (Str (lit ''X''))"
    by (simp_all add: ok_def)
  from condense_success_output_normalised [OF this,
      of "snd (process_article_btn_click_start blank_page)",
      THEN conjunct2, THEN conjunct2] x
  show ?thesis by (rule mp)
qed

text \<open>
  For the condensed text \<open>a\<close> CR LF \<open>b\<close> the field holds \<open>a\<close> LF \<open>b\<close>, which is not the
  text returned.
\<close>

theorem condense_success_output_counterexample:
  "el_value (props (article_output (snd (process_article_btn_click_resume
      (Inr \<lparr>status = 200, text_result = Inr [],
            json_result = Inr (Obj [(lit ''condensed'', Str [0x61, 0x0D, 0x0A, 0x62])])\<rparr>)
      (snd (process_article_btn_click_start blank_page)))))) = [0x61, 0x0A, 0x62]
   \<and> el_value (props (article_output (snd (process_article_btn_click_resume
      (Inr \<lparr>status = 200, text_result = Inr [],
            json_result = Inr (Obj [(lit ''condensed'', Str [0x61, 0x0D, 0x0A, 0x62])])\<rparr>)
      (snd (process_article_btn_click_start blank_page)))))) \<noteq> [0x61, 0x0D, 0x0A, 0x62]"
  by (simp add: process_article_btn_click_resume_def try_catch_finally_def postJSON_def
      get_prop_def value_of_def set_value_def assign_def ok_def)

text \<open>
  C2. On a failed request whose body holds markup, here status 500 with the body
  \<open><b>err</b>\<close>, the parse handler assigns the body, unescaped, to the \<open>innerHTML\<close> of
  \<open>tables-output\<close>: the browser parses it as markup, so the user is not shown the body
  text. The condense handler, on the same response, does write the message as text
  into the value of \<open>article-output\<close>.
\<close>

theorem parse_failure_inserts_markup:
  "parse_tables_btn_click_resume
      (Inr \<lparr>status = 500, text_result = Inr (lit ''<b>err</b>''),
            json_result = Inl (SyntaxError [])\<rparr>) blank_page =
     (None, blank_page\<lparr>tables_output := plain ''div'' [] []
        [Markup (lit ''<p class='' @ [0x22] @ lit ''error'' @ [0x22]
                   @ lit ''>Error: Request failed: 500 <b>err</b></p>'')]\<rparr>)
   \<and> el_value (props (article_output (snd (process_article_btn_click_resume
      (Inr \<lparr>status = 500, text_result = Inr (lit ''<b>err</b>''),
            json_result = Inl (SyntaxError [])\<rparr>) blank_page))))
       = lit ''Error: Request failed: 500 <b>err</b>''"
proof -
  let ?res = "\<lparr>status = 500, text_result = Inr (lit ''<b>err</b>''),
               json_result = Inl (SyntaxError [])\<rparr>"
  have p: "postJSON (Inr ?res) = Inl (Error (lit ''Request failed: 500 <b>err</b>''))"
    by (simp add: postJSON_def ok_def dec_nat.simps digit_def lit_def)
  have a: "parse_tables_btn_click_resume (Inr ?res) blank_page =
     (None, blank_page\<lparr>tables_output := plain ''div'' [] []
        [Markup (lit ''<p class='' @ [0x22] @ lit ''error'' @ [0x22]
                   @ lit ''>Error: Request failed: 500 <b>err</b></p>'')]\<rparr>)"
    unfolding parse_failure_markup [OF p]
    by (simp add: blank_page_def plain_def set_innerHTML_def set_textContent_def assign_def
        lit_def)
  have b: "el_value (props (article_output (snd (process_article_btn_click_resume
      (Inr ?res) blank_page)))) = lit ''Error: Request failed: 500 <b>err</b>''"
    unfolding condense_failure_shown [OF p]
    by (simp add: set_value_def assign_def lit_def)
  show ?thesis using a b by simp
qed

text \<open>
  C5. Each of the two request buttons is disabled by the part of its handler that runs at
  the click, and enabled again by the part that runs when the request has completed,
  whatever the outcome and whatever the page is by then; that part never throws. No
  other handler of the program touches the button in between.
\<close>

theorem control_disabled_during_request:
  "disabled (props (process_article_btn (snd (process_article_btn_click_start st))))
   \<and> \<not> disabled (props (process_article_btn (snd (process_article_btn_click_resume fetched st))))
   \<and> fst (process_article_btn_click_resume fetched st) = None
   \<and> disabled (props (parse_tables_btn (snd (parse_tables_btn_click_start st))))
   \<and> \<not> disabled (props (parse_tables_btn (snd (parse_tables_btn_click_resume fetched st))))
   \<and> fst (parse_tables_btn_click_resume fetched st) = None
   \<and> process_article_btn (snd (parse_tables_btn_click_start st)) = process_article_btn st
   \<and> process_article_btn (snd (parse_tables_btn_click_resume fetched st)) = process_article_btn st
   \<and> process_article_btn (snd (copy_article_btn_click_resume text outcome st)) = process_article_btn st
   \<and> process_article_btn (copy_article_btn_timeout st) = process_article_btn st
   \<and> process_article_btn (snd (snd (copyJsonBtn_click_resume text outcome copyJsonBtn st)))
       = process_article_btn st
   \<and> parse_tables_btn (snd (process_article_btn_click_start st)) = parse_tables_btn st
   \<and> parse_tables_btn (snd (process_article_btn_click_resume fetched st)) = parse_tables_btn st
   \<and> parse_tables_btn (snd (copy_article_btn_click_resume text outcome st)) = parse_tables_btn st
   \<and> parse_tables_btn (copy_article_btn_timeout st) = parse_tables_btn st
   \<and> parse_tables_btn (snd (snd (copyJsonBtn_click_resume text outcome copyJsonBtn st)))
       = parse_tables_btn st"
proof -
  have a: "disabled (props (process_article_btn (snd (process_article_btn_click_start st))))"
    by (simp add: process_article_btn_click_start_def Let_def set_textContent_def assign_def)
  have b: "\<not> disabled (props (process_article_btn
             (snd (process_article_btn_click_resume fetched st))))"
    by (simp add: process_article_btn_click_resume_def try_catch_finally_def Let_def
        set_textContent_def assign_def split: sum.splits prod.splits option.splits)
  have c: "disabled (props (parse_tables_btn (snd (parse_tables_btn_click_start st))))"
    by (simp add: parse_tables_btn_click_start_def Let_def set_textContent_def assign_def)
  have d: "\<not> disabled (props (parse_tables_btn
             (snd (parse_tables_btn_click_resume fetched st))))"
    by (simp add: parse_tables_btn_click_resume_def try_catch_finally_def Let_def
        set_textContent_def assign_def split: sum.splits prod.splits option.splits)
  have e: "process_article_btn (snd (parse_tables_btn_click_start st)) = process_article_btn st"
    by (simp add: parse_tables_btn_click_start_def Let_def)
  have rt: "process_article_btn (snd (renderTables t s)) = process_article_btn s" for t s
    using renderTables_frame [of t s] by auto
  have f: "process_article_btn (snd (parse_tables_btn_click_resume fetched st))
             = process_article_btn st"
    using rt
    by (auto simp add: parse_tables_btn_click_resume_def try_catch_finally_def Let_def
        split: sum.splits prod.splits option.splits) (metis snd_conv)+
  have g: "process_article_btn (snd (copy_article_btn_click_resume text outcome st)) = process_article_btn st"
    by (simp add: copy_article_btn_click_resume_def copyToClipboard_def setTimeout_def
        split: sum.splits)
  have h: "process_article_btn (copy_article_btn_timeout st) = process_article_btn st"
    by (simp add: copy_article_btn_timeout_def)
  have i: "process_article_btn (snd (snd (copyJsonBtn_click_resume text outcome copyJsonBtn st)))
             = process_article_btn st"
    by (simp add: copyJsonBtn_click_resume_def copyToClipboard_def setTimeout_def
        split: sum.splits)
  have j: "parse_tables_btn (snd (process_article_btn_click_start st)) = parse_tables_btn st"
    by (simp add: process_article_btn_click_start_def Let_def)
  have k: "parse_tables_btn (snd (process_article_btn_click_resume fetched st))
             = parse_tables_btn st"
    by (simp add: process_article_btn_click_resume_def try_catch_finally_def Let_def
        split: sum.splits prod.splits option.splits)
  have l: "parse_tables_btn (snd (copy_article_btn_click_resume text outcome st)) = parse_tables_btn st"
    by (simp add: copy_article_btn_click_resume_def copyToClipboard_def setTimeout_def
        split: sum.splits)
  have m: "parse_tables_btn (copy_article_btn_timeout st) = parse_tables_btn st"
    by (simp add: copy_article_btn_timeout_def)
  have n: "parse_tables_btn (snd (snd (copyJsonBtn_click_resume text outcome copyJsonBtn st)))
             = parse_tables_btn st"
    by (simp add: copyJsonBtn_click_resume_def copyToClipboard_def setTimeout_def
        split: sum.splits)
  show ?thesis
    using a b c d e f g h i j k l m n process_resume_completes parse_resume_completes
    by blast
qed

theorem control_disabled_during_request_witness:
  "disabled (props (process_article_btn (snd (process_article_btn_click_start blank_page))))
   \<and> \<not> disabled (props (process_article_btn (snd (process_article_btn_click_resume
         (Inl (TypeError (lit ''Failed to fetch'')))
         (snd (process_article_btn_click_start blank_page))))))
   \<and> disabled (props (parse_tables_btn (snd (parse_tables_btn_click_start blank_page))))
   \<and> \<not> disabled (props (parse_tables_btn (snd (parse_tables_btn_click_resume
         (Inr \<lparr>status = 200, text_result = Inr [],
               json_result = Inr (Obj [(lit ''tables'', Arr [example_table])])\<rparr>)
         (snd (parse_tables_btn_click_start blank_page))))))"
  using control_disabled_during_request [of blank_page]
    control_disabled_during_request [of "snd (process_article_btn_click_start blank_page)"
      "Inl (TypeError (lit ''Failed to fetch''))"]
    control_disabled_during_request [of "snd (parse_tables_btn_click_start blank_page)"
      "Inr \<lparr>status = 200, text_result = Inr [],
            json_result = Inr (Obj [(lit ''tables'', Arr [example_table])])\<rparr>"]
  by blast

section \<open>Rendering tables\<close>

text \<open>
  C3. For the single table \<open>{title: "T", headers: ["a","b"], rows: [["1","2"]]}\<close>,
  \<open>renderTables\<close> completes and leaves exactly one table block in \<open>tables-output\<close>:
  its title is \<open>T\<close>; its table has one header row with the cells \<open>a\<close>, \<open>b\<close> and one
  body row with the cells \<open>1\<close>, \<open>2\<close>; the value of its textarea is
  \<open>JSON.stringify(table, null, 2)\<close>, which is the thirteen lines given.
\<close>

theorem render_example_table:
  "renderTables (Arr [example_table]) st =
    (None, st\<lparr>tables_output := Element ((props (tables_output st))\<lparr>textContent := []\<rparr>)
       [Child (table_block (lit ''T'')
          (plain ''table'' (lit ''editable-table'') []
             [Child (plain ''thead'' [] []
                [Child (plain ''tr'' [] []
                   [Child (plain ''th'' [] (lit ''a'') []),
                    Child (plain ''th'' [] (lit ''b'') [])])]),
              Child (plain ''tbody'' [] []
                [Child (plain ''tr'' [] []
                   [Child (plain ''td'' [] (lit ''1'') []),
                    Child (plain ''td'' [] (lit ''2'') [])])])])
          (the (JSON_stringify example_table 2)))]\<rparr>)
   \<and> JSON_stringify example_table 2 = Some (join [0x0A]
       [lit ''{'',
        lit ''  '' @ quoted ''title'' @ lit '': '' @ quoted ''T'' @ lit '','',
        lit ''  '' @ quoted ''headers'' @ lit '': ['',
        lit ''    '' @ quoted ''a'' @ lit '','',
        lit ''    '' @ quoted ''b'',
        lit ''  ],'',
        lit ''  '' @ quoted ''rows'' @ lit '': ['',
        lit ''    ['',
        lit ''      '' @ quoted ''1'' @ lit '','',
        lit ''      '' @ quoted ''2'',
        lit ''    ]'',
        lit ''  ]'',
        lit ''}''])"
proof -
  have "renderTables (Arr [example_table]) st =
    (None, st\<lparr>tables_output := Element ((props (tables_output st))\<lparr>textContent := []\<rparr>)
       [Child (table_block (lit ''T'')
          (table_view [lit ''a'', lit ''b''] [[lit ''1'', lit ''2'']])
          (the (JSON_stringify example_table 2)))]\<rparr>)"
    by (simp add: renderTables_def no_tables_def number_of_nat_def forEach_def
        example_table_block get_prop_def set_innerHTML_def appendChild_def)
  then show ?thesis
    using example_table_json by (simp add: table_view_def)
qed

theorem render_example_table_witness:
  "tables_output (snd (renderTables (Arr [example_table]) blank_page)) =
     plain ''div'' [] []
       [Child (table_block (lit ''T'')
          (plain ''table'' (lit ''editable-table'') []
             [Child (plain ''thead'' [] []
                [Child (plain ''tr'' [] []
                   [Child (plain ''th'' [] (lit ''a'') []),
                    Child (plain ''th'' [] (lit ''b'') [])])]),
              Child (plain ''tbody'' [] []
                [Child (plain ''tr'' [] []
                   [Child (plain ''td'' [] (lit ''1'') []),
                    Child (plain ''td'' [] (lit ''2'') [])])])])
          (the (JSON_stringify example_table 2)))]"
  using render_example_table [of blank_page]
  by (simp add: blank_page_def plain_def)

text \<open>
  C4. When the parse request succeeds with a body whose \<open>tables\<close> property is the empty
  array, the handler completes and the content of \<open>tables-output\<close> is exactly the one
  paragraph \<open>No tables found.\<close>, whatever was rendered there before.
\<close>

theorem empty_tables_message:
  assumes "ok res" and "json_result res = Inr (Obj kvs)"
    and "map_of kvs (lit ''tables'') = Some (Arr [])"
  shows "parse_tables_btn_click_resume (Inr res) st =
     (None, st\<lparr>tables_output :=
                 Element ((props (tables_output st))\<lparr>textContent := []\<rparr>) [Child no_tables_el],
               parse_tables_btn := set_textContent (lit ''Parse tables'')
                 (assign (\<lambda>p. p\<lparr>disabled := False\<rparr>) (parse_tables_btn st))\<rparr>)
    \<and> renderTables (Arr []) st =
     (None, st\<lparr>tables_output :=
                 Element ((props (tables_output st))\<lparr>textContent := []\<rparr>) [Child no_tables_el]\<rparr>)"
  using assms
  by (simp add: parse_tables_btn_click_resume_def try_catch_finally_def postJSON_def
      get_prop_def renderTables_def no_tables_def number_of_nat_def set_innerHTML_def
      appendChild_def no_tables_el_def plain_def assign_def set_textContent_def
      createElement_def)

theorem empty_tables_message_witness:
  "childNodes (tables_output (snd (parse_tables_btn_click_resume
      (Inr \<lparr>status = 200, text_result = Inr [],
            json_result = Inr (Obj [(lit ''tables'', Arr [])])\<rparr>)
      (snd (renderTables (Arr [example_table]) blank_page))))) =
     [Child (plain ''p'' (lit ''hint'') (lit ''No tables found.'') [])]"
  using empty_tables_message [of
      "\<lparr>status = 200, text_result = Inr [],
        json_result = Inr (Obj [(lit ''tables'', Arr [])])\<rparr>"
      "[(lit ''tables'', Arr [])]"
      "snd (renderTables (Arr [example_table]) blank_page)"]
  by (simp add: ok_def no_tables_el_def)

text \<open>
  C10. When \<open>tables\<close> is \<open>null\<close> or \<open>undefined\<close>, \<open>renderTables\<close> does what it does for
  the empty array: it completes with the one paragraph \<open>No tables found.\<close>. So does the
  parse handler on a successful response whose body has no \<open>tables\<close> property, or has
  \<open>null\<close> there.
\<close>

theorem missing_tables_message:
  assumes "tables = Null \<or> tables = Undefined"
    and "ok res" and "json_result res = Inr (Obj kvs)"
    and "map_of kvs (lit ''tables'') = None \<or> map_of kvs (lit ''tables'') = Some Null"
  shows "renderTables tables st =
     (None, st\<lparr>tables_output :=
                 Element ((props (tables_output st))\<lparr>textContent := []\<rparr>) [Child no_tables_el]\<rparr>)
    \<and> renderTables tables st = renderTables (Arr []) st
    \<and> parse_tables_btn_click_resume (Inr res) st =
     (None, st\<lparr>tables_output :=
                 Element ((props (tables_output st))\<lparr>textContent := []\<rparr>) [Child no_tables_el],
               parse_tables_btn := set_textContent (lit ''Parse tables'')
                 (assign (\<lambda>p. p\<lparr>disabled := False\<rparr>) (parse_tables_btn st))\<rparr>)"
proof -
  have r: "renderTables t st =
     (None, st\<lparr>tables_output :=
                 Element ((props (tables_output st))\<lparr>textContent := []\<rparr>) [Child no_tables_el]\<rparr>)"
    if "t = Null \<or> t = Undefined \<or> t = Arr []" for t
    using that
    by (auto simp add: get_prop_def renderTables_def no_tables_def number_of_nat_def
        set_innerHTML_def appendChild_def no_tables_el_def plain_def assign_def
        set_textContent_def createElement_def)
  have g: "get_prop (Obj kvs) (lit ''tables'') = Inr Undefined
         \<or> get_prop (Obj kvs) (lit ''tables'') = Inr Null"
    using assms(4) by (auto simp: get_prop_def)
  have h: "parse_tables_btn_click_resume (Inr res) st =
     (None, st\<lparr>tables_output :=
                 Element ((props (tables_output st))\<lparr>textContent := []\<rparr>) [Child no_tables_el],
               parse_tables_btn := set_textContent (lit ''Parse tables'')
                 (assign (\<lambda>p. p\<lparr>disabled := False\<rparr>) (parse_tables_btn st))\<rparr>)"
    using g assms(2,3) r [of Undefined] r [of Null]
    by (auto simp add: parse_tables_btn_click_resume_def try_catch_finally_def postJSON_def)
  show ?thesis
    using r [of tables] r [of "Arr []"] assms(1) h by auto
qed

theorem missing_tables_message_witness:
  "childNodes (tables_output (snd (renderTables Null blank_page))) =
     [Child (plain ''p'' (lit ''hint'') (lit ''No tables found.'') [])]
   \<and> childNodes (tables_output (snd (parse_tables_btn_click_resume
      (Inr \<lparr>status = 200, text_result = Inr [], json_result = Inr (Obj [])\<rparr>)
      (snd (renderTables (Arr [example_table]) blank_page))))) =
     [Child (plain ''p'' (lit ''hint'') (lit ''No tables found.'') [])]"
  using missing_tables_message [of Null
      "\<lparr>status = 200, text_result = Inr [], json_result = Inr (Obj [])\<rparr>" "[]" blank_page]
    missing_tables_message [of Null
      "\<lparr>status = 200, text_result = Inr [], json_result = Inr (Obj [])\<rparr>" "[]"
      "snd (renderTables (Arr [example_table]) blank_page)"]
  by (simp add: ok_def no_tables_el_def)


text \<open>
  C7. \<open>renderReadonlyTable\<close> on a table object completes without error and builds the
  table of its header cells and body rows, where a missing \<open>headers\<close> property counts
  as no header cell and a missing \<open>rows\<close> property as no row; the rows may have any
  lengths, whatever the number of headers. The cells are texts, or any values that
  convert to a text, and the table shows those texts. With a title that is missing or
  a string, \<open>renderTableBlock\<close> completes as well.
\<close>

theorem renderReadonlyTable_defensive:
  assumes "map_of kvs (lit ''headers'') = None \<and> hs = []
         \<or> map_of kvs (lit ''headers'') = Some (Arr hs)"
    and "map_of kvs (lit ''rows'') = None \<and> css = []
         \<or> map_of kvs (lit ''rows'') = Some (Arr (map Arr css))"
    and "cell_texts hs hts"
    and "list_all2 cell_texts css ctss"
  shows "renderReadonlyTable (Obj kvs) = Inr (table_view hts ctss)
    \<and> (map_of kvs (lit ''title'') = None \<or> map_of kvs (lit ''title'') = Some (Str s)
         \<longrightarrow> (\<exists>c. renderTableBlock container (Obj kvs) = Inr c))"
proof -
  obtain h where h: "get_prop (Obj kvs) (lit ''headers'') = Inr h" "js_or h (Arr []) = Arr hs"
    using assms(1) by (auto simp: get_prop_def js_or_def)
  obtain r where r: "get_prop (Obj kvs) (lit ''rows'') = Inr r"
      "js_or r (Arr []) = Arr (map Arr css)"
    using assms(2) by (auto simp: get_prop_def js_or_def)
  have v: "renderReadonlyTable (Obj kvs) = Inr (table_view hts ctss)"
    by (rule renderReadonlyTable_view [OF h assms(3) r assms(4)])
  have "\<exists>c. renderTableBlock container (Obj kvs) = Inr c"
    if "map_of kvs (lit ''title'') = None \<or> map_of kvs (lit ''title'') = Some (Str s)"
  proof -
    define t where "t = (case map_of kvs (lit ''title'') of None \<Rightarrow> Undefined | Some x \<Rightarrow> x)"
    have t: "get_prop (Obj kvs) (lit ''title'') = Inr t"
      by (simp add: get_prop_def t_def)
    have "t = Undefined \<or> t = Str s"
      using that by (auto simp: t_def)
    then have "call_trim (js_or t (Str [])) = Inr (if t = Undefined then [] else trim s)"
      by (auto simp: call_trim_def js_or_def trim_def)
    from renderTableBlock_block [OF t this v] show ?thesis by blast
  qed
  with v show ?thesis by blast
qed

theorem renderReadonlyTable_defensive_witness:
  "renderReadonlyTable (Obj [(lit ''rows'', Arr [Arr [Str (lit ''1'')], Arr []])]) =
     Inr (table_view [] [[lit ''1''], []])
   \<and> renderReadonlyTable (Obj [(lit ''headers'', Arr [Str (lit ''a''), Str (lit ''b'')])]) =
     Inr (table_view [lit ''a'', lit ''b''] [])
   \<and> renderReadonlyTable
       (Obj [(lit ''headers'', Arr [Str (lit ''a''), Str (lit ''b'')]),
             (lit ''rows'', Arr [Arr [Str (lit ''1''), Str (lit ''2''), Str (lit ''3'')],
                                 Arr [Null]])]) =
     Inr (table_view [lit ''a'', lit ''b''] [[lit ''1'', lit ''2'', lit ''3''], [[]]])"
proof -
  have c: "cell_texts [] []" "cell_texts [Str (lit ''1'')] [lit ''1'']"
    "cell_texts [Str (lit ''a''), Str (lit ''b'')] [lit ''a'', lit ''b'']"
    "cell_texts [Str (lit ''1''), Str (lit ''2''), Str (lit ''3'')] [lit ''1'', lit ''2'', lit ''3'']"
    "cell_texts [Null] [[]]"
    by (simp_all add: cell_texts_def textContent_of_def)
  show ?thesis
    using renderReadonlyTable_defensive [of
        "[(lit ''rows'', Arr [Arr [Str (lit ''1'')], Arr []])]" "[]" "[[Str (lit ''1'')], []]"
        "[]" "[[lit ''1''], []]"]
      renderReadonlyTable_defensive [of
        "[(lit ''headers'', Arr [Str (lit ''a''), Str (lit ''b'')])]"
        "[Str (lit ''a''), Str (lit ''b'')]" "[]" "[lit ''a'', lit ''b'']" "[]"]
      renderReadonlyTable_defensive [of
        "[(lit ''headers'', Arr [Str (lit ''a''), Str (lit ''b'')]),
          (lit ''rows'', Arr [Arr [Str (lit ''1''), Str (lit ''2''), Str (lit ''3'')],
                              Arr [Null]])]"
        "[Str (lit ''a''), Str (lit ''b'')]"
        "[[Str (lit ''1''), Str (lit ''2''), Str (lit ''3'')], [Null]]"
        "[lit ''a'', lit ''b'']" "[[lit ''1'', lit ''2'', lit ''3''], [[]]]"]
      c
    by (simp add: lit_def)
qed

text \<open>
  C9. For a table that \<open>renderReadonlyTable\<close> can render and whose title is missing or
  a string \<open>s\<close>, the block that \<open>renderTableBlock\<close> appends shows \<open>(untitled)\<close> when the
  title is missing, empty or made of white space only, and otherwise \<open>trim s\<close>: \<open>s\<close>
  without the white space before its first and after its last other character.
\<close>

theorem block_title:
  assumes "renderReadonlyTable table = Inr tableEl"
    and "get_prop table (lit ''title'') = Inr t"
    and "t = Undefined \<or> t = Str s"
  shows "renderTableBlock container table =
     Inr (appendChild (table_block
            (if t = Undefined \<or> list_all is_ws s then lit ''(untitled)'' else trim s)
            tableEl (the (JSON_stringify table 2))) container)
    \<and> (\<exists>pre post. s = pre @ trim s @ post \<and> list_all is_ws pre \<and> list_all is_ws post)
    \<and> (\<not> list_all is_ws s \<longrightarrow>
          trim s \<noteq> [] \<and> \<not> is_ws (hd (trim s)) \<and> \<not> is_ws (last (trim s)))"
proof -
  have tr: "call_trim (js_or t (Str [])) = Inr (if t = Undefined then [] else trim s)"
    using assms(3) by (auto simp: call_trim_def js_or_def trim_def)
  from assms(2) have "table \<noteq> Undefined" by (auto simp: get_prop_def)
  then obtain j where j: "JSON_stringify table 2 = Some j"
    using ser_None [of _ _ table] by (auto simp: JSON_stringify_def)
  have b: "renderTableBlock container table =
     Inr (appendChild (table_block
            (if t = Undefined \<or> list_all is_ws s then lit ''(untitled)'' else trim s)
            tableEl (the (JSON_stringify table 2))) container)"
    using renderTableBlock_block [OF assms(2) tr assms(1), of container] j assms(3)
    by (auto simp: trim_Nil_iff)
  have e: "trim s \<noteq> [] \<and> \<not> is_ws (hd (trim s)) \<and> \<not> is_ws (last (trim s))"
    if "\<not> list_all is_ws s"
    using that trim_ends [of s] by (simp add: trim_Nil_iff)
  show ?thesis
    using b trim_split [of s] e by blast
qed

theorem block_title_witness:
  "renderTableBlock (plain ''div'' [] [] []) (Obj [(lit ''title'', Str (lit ''  x y  ''))]) =
     Inr (plain ''div'' [] []
       [Child (table_block (lit ''x y'') (table_view [] [])
          (the (JSON_stringify (Obj [(lit ''title'', Str (lit ''  x y  ''))]) 2)))])
   \<and> renderTableBlock (plain ''div'' [] [] []) (Obj [(lit ''title'', Str [0x20, 0xA0, 0x09])]) =
     Inr (plain ''div'' [] []
       [Child (table_block (lit ''(untitled)'') (table_view [] [])
          (the (JSON_stringify (Obj [(lit ''title'', Str [0x20, 0xA0, 0x09])]) 2)))])
   \<and> renderTableBlock (plain ''div'' [] [] []) (Obj []) =
     Inr (plain ''div'' [] []
       [Child (table_block (lit ''(untitled)'') (table_view [] [])
          (the (JSON_stringify (Obj []) 2)))])"
proof -
  have v: "renderReadonlyTable (Obj kvs) = Inr (table_view [] [])"
    if "map_of kvs (lit ''headers'') = None" and "map_of kvs (lit ''rows'') = None" for kvs
    using that renderReadonlyTable_view [where table = "Obj kvs" and h = Undefined
        and hs = "[]" and hts = "[]" and r = Undefined and css = "[]" and ctss = "[]"]
    by (simp add: get_prop_def js_or_def cell_texts_def)
  have a: "trim (lit ''  x y  '') = lit ''x y''"
    by (simp add: trim_def is_ws_def lit_def)
  show ?thesis
    using block_title [of "Obj [(lit ''title'', Str (lit ''  x y  ''))]" "table_view [] []"
        "Str (lit ''  x y  '')" "lit ''  x y  ''" "plain ''div'' [] [] []"]
      block_title [of "Obj [(lit ''title'', Str [0x20, 0xA0, 0x09])]" "table_view [] []"
        "Str [0x20, 0xA0, 0x09]" "[0x20, 0xA0, 0x09]" "plain ''div'' [] [] []"]
      block_title [of "Obj []" "table_view [] []" Undefined "[]" "plain ''div'' [] [] []"]
      v [of "[(lit ''title'', Str (lit ''  x y  ''))]"]
      v [of "[(lit ''title'', Str [0x20, 0xA0, 0x09])]"] v [of "[]"] a
    by (simp add: get_prop_def appendChild_def plain_def is_ws_def lit_def)
qed

subsection \<open>Values outside the table type\<close>

text \<open>
  The renderer does throw on a row that is not an array, on a cell that does not
  convert to a string (an object with a \<open>toString\<close> property of its own) and on a
  title that is neither a string nor falsy; the parse handler then shows the error in
  place of the blocks rendered so far.
\<close>

lemma renderReadonlyTable_row_not_array:
  "\<exists>e. renderReadonlyTable (Obj [(lit ''rows'', Arr [Arr [], Null])]) = Inl e"
  by (simp add: renderReadonlyTable_def get_prop_def js_or_def forEach_def body_row_def
      lit_def)

lemma renderReadonlyTable_cell_not_convertible:
  "\<exists>e. renderReadonlyTable
         (Obj [(lit ''headers'', Arr [Obj [(lit ''toString'', Num (Finite False [D1]))]])])
       = Inl e"
  by (simp add: renderReadonlyTable_def get_prop_def js_or_def forEach_def header_cell_def
      textContent_of_def lit_def)

lemma renderTableBlock_title_not_string:
  "\<exists>e. renderTableBlock container (Obj [(lit ''title'', Num (Finite False [D5]))]) = Inl e"
  by (simp add: renderTableBlock_def get_prop_def js_or_def call_trim_def)

lemma parse_resume_render_failure:
  assumes "ok res"
    and "json_result res = Inr (Obj [(lit ''tables'',
           Arr [example_table, Obj [(lit ''title'', Num (Finite False [D5]))]])])"
  shows "\<exists>m. parse_tables_btn_click_resume (Inr res) st =
     (None, st\<lparr>tables_output := Element ((props (tables_output st))\<lparr>textContent := []\<rparr>) [Markup m],
               parse_tables_btn := set_textContent (lit ''Parse tables'')
                 (assign (\<lambda>p. p\<lparr>disabled := False\<rparr>) (parse_tables_btn st))\<rparr>)"
proof -
  obtain e where e: "renderTableBlock c (Obj [(lit ''title'', Num (Finite False [D5]))]) = Inl e"
    for c
    by (simp add: renderTableBlock_def get_prop_def js_or_def call_trim_def)
  have "\<exists>b. renderTables (Arr [example_table, Obj [(lit ''title'', Num (Finite False [D5]))]]) st
      = (Some e, st\<lparr>tables_output :=
           Element ((props (tables_output st))\<lparr>textContent := []\<rparr>) [Child b]\<rparr>)"
    by (simp add: renderTables_def no_tables_def number_of_nat_def forEach_def
        example_table_block e get_prop_def set_innerHTML_def appendChild_def) blast
  then show ?thesis
    using assms
    by (auto simp add: parse_tables_btn_click_resume_def try_catch_finally_def postJSON_def
        get_prop_def set_innerHTML_def lit_def)
qed

section \<open>Copying\<close>

text \<open>
  C6. The handler of \<open>copy-article-btn\<close> hands the value that \<open>article-output\<close> has at
  the click to the clipboard. When the write succeeds, that text is on the clipboard,
  the label of the button is \<open>Copied!\<close>, and a timeout of 1200 ms is pending whose
  callback sets the label to \<open>Copy condensed\<close>. The handler of a \<open>Copy JSON\<close> button
  does the same with the value of its textarea and the label \<open>Copy JSON\<close>; for the
  button of a block that \<open>renderTableBlock\<close> has built, the text copied is the JSON
  text of the table and the callback gives back the button as it was built.
\<close>

theorem copy_success_feedback:
  "copy_article_btn_click_resume (copy_article_btn_click_start st) (Inr ()) st' =
     (None, st'\<lparr>clipboard := el_value (props (article_output st)),
                copy_article_btn := set_textContent (lit ''Copied!'') (copy_article_btn st'),
                timers := timers st' @ [(RevertCopyArticle, 1200)]\<rparr>)
   \<and> textContent (props (copy_article_btn (copy_article_btn_timeout st'))) = lit ''Copy condensed''
   \<and> (textContent (props (copy_article_btn st)) = lit ''Copy condensed'' \<longrightarrow>
        textContent (props (copy_article_btn (copy_article_btn_timeout
            (snd (copy_article_btn_click_resume (copy_article_btn_click_start st) (Inr ()) st)))))
          = textContent (props (copy_article_btn st)))
   \<and> copyJsonBtn_click_resume (copyJsonBtn_click_start jsonOut) (Inr ()) copyJsonBtn st' =
     (None, set_textContent (lit ''Copied!'') copyJsonBtn,
            st'\<lparr>clipboard := el_value (props jsonOut),
                timers := timers st' @ [(RevertCopyJson, 1200)]\<rparr>)
   \<and> textContent (props (copyJsonBtn_timeout copyJsonBtn)) = lit ''Copy JSON''
   \<and> (renderTableBlock container table = Inr c \<longrightarrow>
        (\<exists>title tableEl j.
            c = appendChild (table_block title tableEl j) container
          \<and> JSON_stringify table 2 = Some j
          \<and> copyJsonBtn_click_resume (copyJsonBtn_click_start (jsonOut_el j)) (Inr ())
                copyJsonBtn_el st' =
              (None, set_textContent (lit ''Copied!'') copyJsonBtn_el,
                     st'\<lparr>clipboard := j, timers := timers st' @ [(RevertCopyJson, 1200)]\<rparr>)
          \<and> copyJsonBtn_timeout (set_textContent (lit ''Copied!'') copyJsonBtn_el)
              = copyJsonBtn_el))"
proof -
  have a: "copy_article_btn_click_resume (copy_article_btn_click_start st) (Inr ()) s =
     (None, s\<lparr>clipboard := el_value (props (article_output st)),
              copy_article_btn := set_textContent (lit ''Copied!'') (copy_article_btn s),
              timers := timers s @ [(RevertCopyArticle, 1200)]\<rparr>)" for s
    by (simp add: copy_article_btn_click_resume_def copy_article_btn_click_start_def
        copyToClipboard_def setTimeout_def)
  have b: "textContent (props (copy_article_btn (copy_article_btn_timeout s)))
             = lit ''Copy condensed''" for s
    by (simp add: copy_article_btn_timeout_def set_textContent_def)
  have c: "copyJsonBtn_click_resume (copyJsonBtn_click_start jo) (Inr ()) btn st' =
     (None, set_textContent (lit ''Copied!'') btn,
            st'\<lparr>clipboard := el_value (props jo),
                timers := timers st' @ [(RevertCopyJson, 1200)]\<rparr>)" for jo btn
    by (simp add: copyJsonBtn_click_resume_def copyJsonBtn_click_start_def
        copyToClipboard_def setTimeout_def)
  have d: "textContent (props (copyJsonBtn_timeout copyJsonBtn)) = lit ''Copy JSON''"
    by (simp add: copyJsonBtn_timeout_def set_textContent_def)
  have e: "copyJsonBtn_timeout (set_textContent (lit ''Copied!'') copyJsonBtn_el) = copyJsonBtn_el"
    by (simp add: copyJsonBtn_timeout_def set_textContent_def copyJsonBtn_el_def)
  have f: "el_value (props (jsonOut_el j)) = j" for j
    by (simp add: jsonOut_el_def)
  have g: "\<exists>title tableEl j.
            c = appendChild (table_block title tableEl j) container
          \<and> JSON_stringify table 2 = Some j
          \<and> copyJsonBtn_click_resume (copyJsonBtn_click_start (jsonOut_el j)) (Inr ())
                copyJsonBtn_el st' =
              (None, set_textContent (lit ''Copied!'') copyJsonBtn_el,
                     st'\<lparr>clipboard := j, timers := timers st' @ [(RevertCopyJson, 1200)]\<rparr>)
          \<and> copyJsonBtn_timeout (set_textContent (lit ''Copied!'') copyJsonBtn_el)
              = copyJsonBtn_el"
    if "renderTableBlock container table = Inr c"
  proof -
    from renderTableBlock_Inr [OF that] obtain title tableEl j
      where "JSON_stringify table 2 = Some j"
        and "c = appendChild (table_block title tableEl j) container"
      by blast
    then show ?thesis
      using c [of "jsonOut_el j" copyJsonBtn_el] e f [of j] by auto
  qed
  show ?thesis
    using a [of st'] b [of st']
      b [of "snd (copy_article_btn_click_resume (copy_article_btn_click_start st) (Inr ()) st)"]
      c d g
    by simp
qed

theorem copy_success_feedback_witness:
  "clipboard (snd (copy_article_btn_click_resume
      (copy_article_btn_click_start (blank_page\<lparr>article_output := jsonOut_el (lit ''X'')\<rparr>))
      (Inr ()) (blank_page\<lparr>article_output := jsonOut_el (lit ''X'')\<rparr>))) = lit ''X''
   \<and> textContent (props (copy_article_btn (snd (copy_article_btn_click_resume
      (copy_article_btn_click_start (blank_page\<lparr>article_output := jsonOut_el (lit ''X'')\<rparr>))
      (Inr ()) (blank_page\<lparr>article_output := jsonOut_el (lit ''X'')\<rparr>))))) = lit ''Copied!''
   \<and> timers (snd (copy_article_btn_click_resume
      (copy_article_btn_click_start (blank_page\<lparr>article_output := jsonOut_el (lit ''X'')\<rparr>))
      (Inr ()) (blank_page\<lparr>article_output := jsonOut_el (lit ''X'')\<rparr>)))
       = [(RevertCopyArticle, 1200)]
   \<and> textContent (props (copy_article_btn (copy_article_btn_timeout
      (snd (copy_article_btn_click_resume
        (copy_article_btn_click_start (blank_page\<lparr>article_output := jsonOut_el (lit ''X'')\<rparr>))
        (Inr ()) (blank_page\<lparr>article_output := jsonOut_el (lit ''X'')\<rparr>))))))
       = textContent (props (copy_article_btn blank_page))
   \<and> clipboard (snd (snd (copyJsonBtn_click_resume
        (copyJsonBtn_click_start (jsonOut_el (the (JSON_stringify example_table 2))))
        (Inr ()) copyJsonBtn_el blank_page)))
       = the (JSON_stringify example_table 2)"
proof -
  let ?st = "blank_page\<lparr>article_output := jsonOut_el (lit ''X'')\<rparr>"
  let ?c = "appendChild (table_block (lit ''T'')
       (table_view [lit ''a'', lit ''b''] [[lit ''1'', lit ''2'']])
       (the (JSON_stringify example_table 2))) (plain ''div'' [] [] [])"
  have c: "renderTableBlock (plain ''div'' [] [] []) example_table = Inr ?c"
    by (rule example_table_block)
  have l: "textContent (props (copy_article_btn ?st)) = lit ''Copy condensed''"
    "textContent (props (copy_article_btn blank_page)) = lit ''Copy condensed''"
    by (simp_all add: blank_page_def plain_def)
  note T = copy_success_feedback [of ?st ?st "jsonOut_el []" copyJsonBtn_el
      "plain ''div'' [] [] []" example_table ?c]
  note U = copy_success_feedback [of blank_page blank_page "jsonOut_el []" copyJsonBtn_el
      "plain ''div'' [] [] []" example_table ?c]
  note 1 = T [THEN conjunct1]
  have 2: "textContent (props (copy_article_btn (copy_article_btn_timeout
      (snd (copy_article_btn_click_resume (copy_article_btn_click_start ?st) (Inr ()) ?st)))))
        = lit ''Copy condensed''"
    using T [THEN conjunct2, THEN conjunct2, THEN conjunct1] l(1) by simp
  have "\<exists>title tableEl j.
            ?c = appendChild (table_block title tableEl j) (plain ''div'' [] [] [])
          \<and> JSON_stringify example_table 2 = Some j
          \<and> copyJsonBtn_click_resume (copyJsonBtn_click_start (jsonOut_el j)) (Inr ())
                copyJsonBtn_el blank_page =
              (None, set_textContent (lit ''Copied!'') copyJsonBtn_el,
                     blank_page\<lparr>clipboard := j,
                       timers := timers blank_page @ [(RevertCopyJson, 1200)]\<rparr>)
          \<and> copyJsonBtn_timeout (set_textContent (lit ''Copied!'') copyJsonBtn_el)
              = copyJsonBtn_el"
    using U [THEN conjunct2, THEN conjunct2, THEN conjunct2, THEN conjunct2, THEN conjunct2] c
    by (rule mp)
  then obtain j where j: "JSON_stringify example_table 2 = Some j"
    and k: "copyJsonBtn_click_resume (copyJsonBtn_click_start (jsonOut_el j)) (Inr ())
                copyJsonBtn_el blank_page =
              (None, set_textContent (lit ''Copied!'') copyJsonBtn_el,
                 blank_page\<lparr>clipboard := j,
                   timers := timers blank_page @ [(RevertCopyJson, 1200)]\<rparr>)"
    by blast
  have 3: "clipboard (snd (snd (copyJsonBtn_click_resume
        (copyJsonBtn_click_start (jsonOut_el (the (JSON_stringify example_table 2))))
        (Inr ()) copyJsonBtn_el blank_page)))
       = the (JSON_stringify example_table 2)"
    using j k by simp
  have 4: "el_value (props (article_output ?st)) = lit ''X''" "timers ?st = []"
    by (simp_all add: jsonOut_el_def blank_page_def)
  show ?thesis
    using 1 2 3 4 l(2) by (simp add: set_textContent_def)
qed

text \<open>
  C8. When the clipboard write is rejected, both copy handlers end with that very
  exception (nothing catches it) and leave the page as it was: no label changes, no
  message is shown and no timeout is started.
\<close>

theorem clipboard_failure_propagates:
  "copy_article_btn_click_resume text (Inl e) st = (Some e, st)
   \<and> copyJsonBtn_click_resume text (Inl e) copyJsonBtn st = (Some e, copyJsonBtn, st)"
  by (simp add: copy_article_btn_click_resume_def copyJsonBtn_click_resume_def
      copyToClipboard_def)

end
